theory Spec2Isabelle
  imports Complex_Main "HOL-Library.Product_Lexorder"
begin

section \<open>Voxelize: a shallow embedding of \<^verbatim>\<open>main.py\<close>\<close>

text \<open>
  The script loads an STL mesh, asks a mesh library for an occupancy grid, and hands
  coordinates and slices of that grid to a charting library.  The functions of the script
  are modelled one by one below.  Calls into third-party libraries (trimesh, numpy,
  pandas, plotly, streamlit) are either taken as parameters (mesh loading, voxelisation,
  the pseudorandom generator) or modelled after their documented behaviour on the values
  the script passes (boolean arrays, \<^verbatim>\<open>argwhere\<close>, \<^verbatim>\<open>sum\<close>, \<^verbatim>\<open>prod\<close>, integer indexing,
  \<^verbatim>\<open>to_csv\<close>).

  The validation of plotly, and what \<^verbatim>\<open>argwhere\<close> and \<^verbatim>\<open>imshow\<close> leave of the array they are
  handed, are parameters too.

  Numbers: Python integers are \<^typ>\<open>int\<close> or \<^typ>\<open>nat\<close>; a finite float64 is a \<^typ>\<open>real\<close>.
  The float64 arithmetic of the pitch (a subtraction, a maximum, a division) rounds to the
  nearest float64, ties to even, with gradual underflow and overflow to infinity; that is
  \<open>float64_round\<close>.  A numpy division does not raise on a zero divisor but yields \<^verbatim>\<open>nan\<close>
  or an infinity; that is written out in \<open>np_true_divide\<close>.  The fill ratio, a quotient
  of two counts, and the colouring scalars are kept as the exact quotient and roots.
\<close>

subsection \<open>Exceptions and numpy scalars\<close>

datatype py_error =
    IndexError string
  | KeyError string
  | TypeError string
  | ValueError string
  | Exception string

text \<open>\<^verbatim>\<open>str(e)\<close> of a caught exception.\<close>

fun str_error :: "py_error \<Rightarrow> string" where
  "str_error (IndexError s) = s"
| "str_error (KeyError s) = s"
| "str_error (TypeError s) = s"
| "str_error (ValueError s) = s"
| "str_error (Exception s) = s"

datatype npfloat = Fin real | PosInf | NegInf | NaN

text \<open>
  True division of two finite numpy scalars, as in \<^verbatim>\<open>voxel_count / total_voxels\<close>, before
  rounding: a zero divisor gives \<^verbatim>\<open>nan\<close> (for \<^verbatim>\<open>0 / 0\<close>) or a signed infinity, with a warning
  and no exception.
\<close>

definition np_true_divide :: "real \<Rightarrow> real \<Rightarrow> npfloat" where
  "np_true_divide a b =
     (if b \<noteq> 0 then Fin (a / b)
      else if a = 0 then NaN
      else if 0 < a then PosInf else NegInf)"

text \<open>Membership of the closed unit interval; \<^verbatim>\<open>nan\<close> and the infinities are outside.\<close>

fun in_unit_interval :: "npfloat \<Rightarrow> bool" where
  "in_unit_interval (Fin r) = (0 \<le> r \<and> r \<le> 1)"
| "in_unit_interval PosInf = False"
| "in_unit_interval NegInf = False"
| "in_unit_interval NaN = False"

subsection \<open>Rounding to float64\<close>

text \<open>Rounding to the nearest integer, a tie going to the even one.\<close>

definition round_half_even :: "real \<Rightarrow> int" where
  "round_half_even y =
     (let f = \<lfloor>y\<rfloor>; d = y - of_int f
      in if d < 1 / 2 then f else if 1 / 2 < d then f + 1 else if even f then f else f + 1)"

text \<open>
  The exponent \<open>e\<close> with \<open>2\<^sup>e \<le> x < 2\<^sup>e\<^sup>+\<^sup>1\<close> of a positive number, found by halving or
  doubling at most \<open>n\<close> times; 1100 steps cover every float64 and every quotient of two.
\<close>

fun binade :: "nat \<Rightarrow> real \<Rightarrow> int" where
  "binade n x =
     (if n = 0 then 0
      else if 2 \<le> x then binade (n - 1) (x / 2) + 1
      else if x < 1 then binade (n - 1) (x * 2) - 1
      else 0)"

declare binade.simps [simp del]

text \<open>Below \<open>2\<^sup>-\<^sup>1\<^sup>0\<^sup>2\<^sup>2\<close> the spacing of float64 stays that of the smallest normal numbers.\<close>

definition float64_exponent :: "real \<Rightarrow> int" where
  "float64_exponent x = max (binade 1100 \<bar>x\<bar>) (- 1022)"

text \<open>
  The float64 nearest to a real: a multiple of \<open>2\<^sup>e\<^sup>-\<^sup>5\<^sup>2\<close>, ties to the even multiple; an
  infinity from \<open>2\<^sup>1\<^sup>0\<^sup>2\<^sup>4\<close> on.  The sign of a zero is not kept.
\<close>

definition float64_round :: "real \<Rightarrow> npfloat" where
  "float64_round x =
     (if x = 0 then Fin 0
      else
        (let ulp = 2 powi (float64_exponent x - 52);
             y = of_int (round_half_even (x / ulp)) * ulp
         in if 2 powi 1024 \<le> \<bar>y\<bar> then (if 0 < y then PosInf else NegInf) else Fin y))"

text \<open>\<^verbatim>\<open>a - b\<close> of two finite float64.\<close>

definition float64_sub :: "real \<Rightarrow> real \<Rightarrow> npfloat" where
  "float64_sub a b = float64_round (a - b)"

text \<open>
  \<^verbatim>\<open>a / b\<close> of a float64 \<open>a\<close> and a finite number \<open>b\<close> (here a Python integer, taken to convert
  exactly): the rounded quotient, and numpy's values for a zero divisor and for an
  infinite or undefined dividend.
\<close>

definition float64_divide :: "npfloat \<Rightarrow> real \<Rightarrow> npfloat" where
  "float64_divide a b =
     (case a of
        Fin x \<Rightarrow> (case np_true_divide x b of Fin q \<Rightarrow> float64_round q | special \<Rightarrow> special)
      | PosInf \<Rightarrow> (if b < 0 then NegInf else PosInf)
      | NegInf \<Rightarrow> (if b < 0 then PosInf else NegInf)
      | NaN \<Rightarrow> NaN)"

text \<open>\<^verbatim>\<open>a > b\<close> on float64: false whenever either side is \<^verbatim>\<open>nan\<close>.\<close>

fun np_greater :: "npfloat \<Rightarrow> npfloat \<Rightarrow> bool" where
  "np_greater NaN b = False"
| "np_greater a NaN = False"
| "np_greater (Fin x) (Fin y) = (y < x)"
| "np_greater PosInf PosInf = False"
| "np_greater PosInf b = True"
| "np_greater a PosInf = False"
| "np_greater NegInf b = False"
| "np_greater a NegInf = True"

text \<open>
  Python's \<^verbatim>\<open>max\<close> over three items: it keeps the first item and replaces it by a later one
  only when that one compares greater.
\<close>

definition py_max3 :: "npfloat \<Rightarrow> npfloat \<Rightarrow> npfloat \<Rightarrow> npfloat" where
  "py_max3 a b c =
     (let m = (if np_greater b a then b else a) in if np_greater c m then c else m)"

subsection \<open>Boolean arrays\<close>

text \<open>
  A three-dimensional numpy array of booleans: its shape and its cells in row-major
  (C) order.  Every array numpy builds has as many cells as its shape says, which is
  \<open>wf_ndarray3\<close>.
\<close>

record ndarray3 =
  shape :: "nat \<times> nat \<times> nat"
  cells :: "bool list"

record ndarray2 =
  shape2 :: "nat \<times> nat"
  cells2 :: "bool list"

fun np_prod :: "nat \<times> nat \<times> nat \<Rightarrow> nat" where
  "np_prod (nx, ny, nz) = nx * ny * nz"

fun np_prod2 :: "nat \<times> nat \<Rightarrow> nat" where
  "np_prod2 (n0, n1) = n0 * n1"

definition wf_ndarray3 :: "ndarray3 \<Rightarrow> bool" where
  "wf_ndarray3 a = (length (cells a) = np_prod (shape a))"

definition wf_ndarray2 :: "ndarray2 \<Rightarrow> bool" where
  "wf_ndarray2 a = (length (cells2 a) = np_prod2 (shape2 a))"

text \<open>The offset of cell \<open>(i, j, k)\<close> in an array of shape \<open>(nx, ny, nz)\<close>.\<close>

fun offset3 :: "nat \<times> nat \<times> nat \<Rightarrow> nat \<times> nat \<times> nat \<Rightarrow> nat" where
  "offset3 (nx, ny, nz) (i, j, k) = i * (ny * nz) + (j * nz + k)"

fun offset2 :: "nat \<times> nat \<Rightarrow> nat \<times> nat \<Rightarrow> nat" where
  "offset2 (n0, n1) (a, b) = a * n1 + b"

definition cell3 :: "ndarray3 \<Rightarrow> nat \<times> nat \<times> nat \<Rightarrow> bool" where
  "cell3 a p = (cells a ! offset3 (shape a) p)"

definition cell2 :: "ndarray2 \<Rightarrow> nat \<times> nat \<Rightarrow> bool" where
  "cell2 a p = (cells2 a ! offset2 (shape2 a) p)"

text \<open>All index triples of a shape, in row-major order.\<close>

fun ndindex :: "nat \<times> nat \<times> nat \<Rightarrow> (nat \<times> nat \<times> nat) list" where
  "ndindex (nx, ny, nz) = List.product [0..<nx] (List.product [0..<ny] [0..<nz])"

text \<open>
  \<^verbatim>\<open>np.argwhere(a)\<close>: the indices of the cells that are True, one row per cell, in
  row-major order.
\<close>

definition np_argwhere :: "ndarray3 \<Rightarrow> (nat \<times> nat \<times> nat) list" where
  "np_argwhere a = filter (cell3 a) (ndindex (shape a))"

text \<open>\<^verbatim>\<open>np.sum(a)\<close> of a boolean array: the number of True cells.\<close>

definition np_sum :: "ndarray3 \<Rightarrow> nat" where
  "np_sum a = length (filter (\<lambda>b. b) (cells a))"

subsection \<open>Integer indexing and slices\<close>

text \<open>
  \<^verbatim>\<open>a[i]\<close> along an axis of size \<open>n\<close>: a negative index counts from the end, and an index
  outside \<open>-n \<le> i < n\<close> raises \<^verbatim>\<open>IndexError\<close>.
\<close>

definition np_index :: "nat \<Rightarrow> int \<Rightarrow> py_error + nat" where
  "np_index n i =
     (if 0 \<le> i \<and> i < int n then Inr (nat i)
      else if - int n \<le> i \<and> i < 0 then Inr (nat (i + int n))
      else Inl (IndexError ''index is out of bounds for axis''))"

text \<open>\<^verbatim>\<open>volume[i, :, :]\<close>, \<^verbatim>\<open>volume[:, j, :]\<close> and \<^verbatim>\<open>volume[:, :, k]\<close> at a position of the axis.\<close>

definition take_axis0 :: "ndarray3 \<Rightarrow> nat \<Rightarrow> ndarray2" where
  "take_axis0 a i =
     (case shape a of (nx, ny, nz) \<Rightarrow>
        \<lparr>shape2 = (ny, nz),
         cells2 = map (\<lambda>(j, k). cell3 a (i, j, k)) (List.product [0..<ny] [0..<nz])\<rparr>)"

definition take_axis1 :: "ndarray3 \<Rightarrow> nat \<Rightarrow> ndarray2" where
  "take_axis1 a j =
     (case shape a of (nx, ny, nz) \<Rightarrow>
        \<lparr>shape2 = (nx, nz),
         cells2 = map (\<lambda>(i, k). cell3 a (i, j, k)) (List.product [0..<nx] [0..<nz])\<rparr>)"

definition take_axis2 :: "ndarray3 \<Rightarrow> nat \<Rightarrow> ndarray2" where
  "take_axis2 a k =
     (case shape a of (nx, ny, nz) \<Rightarrow>
        \<lparr>shape2 = (nx, ny),
         cells2 = map (\<lambda>(i, j). cell3 a (i, j, k)) (List.product [0..<nx] [0..<ny])\<rparr>)"

text \<open>\<^verbatim>\<open>shape[n]\<close> for \<open>n\<close> in 0, 1, 2 (the only subscripts the script computes).\<close>

fun shape_at :: "nat \<times> nat \<times> nat \<Rightarrow> nat \<Rightarrow> nat" where
  "shape_at (nx, ny, nz) n = (if n = 0 then nx else if n = 1 then ny else nz)"

text \<open>The dictionary \<^verbatim>\<open>{'x': 0, 'y': 1, 'z': 2}\<close>.\<close>

definition axis_number :: "string \<rightharpoonup> nat" where
  "axis_number = map_of [(''x'', 0), (''y'', 1), (''z'', 2)]"

subsection \<open>Text\<close>

text \<open>\<^verbatim>\<open>str(n)\<close> of an integer, in decimal.\<close>

definition digit_char :: "nat \<Rightarrow> char" where
  "digit_char d = ''0123456789'' ! d"

fun str_nat :: "nat \<Rightarrow> string" where
  "str_nat n = (if n < 10 then [digit_char n] else str_nat (n div 10) @ [digit_char (n mod 10)])"

declare str_nat.simps [simp del]

definition str_int :: "int \<Rightarrow> string" where
  "str_int i = (if i < 0 then CHR ''-'' # str_nat (nat (- i)) else str_nat (nat i))"

definition newline :: char where
  "newline = CHR 0x0A"

definition comma :: char where
  "comma = CHR '',''"

text \<open>
  \<^verbatim>\<open>pd.DataFrame(rows, columns=cols).to_csv(index=False)\<close> for a table of integers with
  three columns: the header line, then one line per row, fields separated by commas and
  every line ended by a line feed.
\<close>

fun csv_line :: "string list \<Rightarrow> string" where
  "csv_line [] = [newline]"
| "csv_line [f] = f @ [newline]"
| "csv_line (f # g # fs) = f @ comma # csv_line (g # fs)"

record data_frame =
  columns :: "string list"
  rows :: "(nat \<times> nat \<times> nat) list"

definition to_csv :: "data_frame \<Rightarrow> string" where
  "to_csv df =
     csv_line (columns df) @
     concat (map (\<lambda>(i, j, k). csv_line [str_nat i, str_nat j, str_nat k]) (rows df))"

text \<open>
  Reading the table back, to say what the text holds: \<^verbatim>\<open>s.split(c)\<close>, and the fields of
  every line of a text whose lines all end with a line feed.
\<close>

fun split_on :: "char \<Rightarrow> string \<Rightarrow> string list" where
  "split_on c [] = [[]]"
| "split_on c (x # xs) =
     (if x = c then [] # split_on c xs
      else (x # hd (split_on c xs)) # tl (split_on c xs))"

definition csv_table :: "string \<Rightarrow> string list list" where
  "csv_table s = map (split_on comma) (butlast (split_on newline s))"

subsection \<open>Meshes, grids and the session state\<close>

type_synonym vec3 = "real \<times> real \<times> real"

text \<open>
  What the script reads of a loaded mesh.  \<open>bounds\<close> is \<^verbatim>\<open>None\<close> for a mesh with no
  vertices, otherwise the pair of the lower and the upper corner.
\<close>

record mesh =
  vertices :: "vec3 list"
  faces :: "(nat \<times> nat \<times> nat) list"
  volume :: real
  area :: real
  bounds :: "(vec3 \<times> vec3) option"

text \<open>
  What the script reads of a voxel grid: the occupancy matrix, the attribute \<^verbatim>\<open>_pitch\<close> that
  \<open>voxelize_mesh\<close> attaches (\<open>stored_pitch\<close>, absent until then), and the library's own
  \<^verbatim>\<open>pitch\<close> (an array of three numbers, where the library's version has the attribute) and
  world-space origin, which the script never uses for coordinates.
\<close>

record voxel_grid =
  matrix :: ndarray3
  stored_pitch :: "npfloat option"
  lib_pitch :: "vec3 option"
  origin :: vec3

record uploaded_file =
  name :: string
  getvalue :: string

text \<open>The figures, reduced to the data and parameters the script passes to plotly.\<close>

record scatter3d =
  fig_x :: "nat list"
  fig_y :: "nat list"
  fig_z :: "nat list"
  fig_marker_size :: real
  fig_marker_color :: "real list"
  fig_marker_colorscale :: string
  fig_marker_opacity :: real
  fig_text :: "string list"
  fig_colorbar_title :: string
  fig_title_voxels :: nat

record heatmap =
  img :: ndarray2
  heatmap_title :: string
  color_continuous_scale :: string
  x_label :: string
  y_label :: string

datatype shown =
    ShowInt int
  | ShowFloat4 npfloat
  | ShowShape "nat \<times> nat \<times> nat"
  | ShowRange real real
  | ShowNothing

datatype download_data =
    CsvText string
  | NpyArray "nat \<times> nat \<times> nat" "nat list"

text \<open>
  What one run of the script shows, in order.  Static headings and help texts are left
  out; messages, the info panel's lines, the charts and the download buttons are kept.
\<close>

datatype ui_event =
    StError string
  | StWarning string
  | StInfo string
  | StImage string
  | StWrite string shown
  | PlotlyChart3d scatter3d
  | PlotlyChartSlice heatmap
  | DownloadButton string download_data string string

text \<open>
  The state outside the script's own variables: the files on disk, what has been shown,
  and the state of numpy's global pseudorandom generator.
\<close>

record 'r world =
  files :: "string \<rightharpoonup> string"
  ui :: "ui_event list"
  rng :: 'r

text \<open>
  The library routines the script delegates to, as parameters:
  the name \<^verbatim>\<open>NamedTemporaryFile\<close> picks, \<^verbatim>\<open>trimesh.load_mesh\<close> on a path,
  \<^verbatim>\<open>mesh.voxelized(pitch=...)\<close>, \<^verbatim>\<open>np.random.seed\<close> and \<^verbatim>\<open>np.random.rand\<close>;
  the \<^verbatim>\<open>ValueError\<close>, if any, with which plotly's \<^verbatim>\<open>go.Scatter3d\<close> refuses a marker size, colour
  scale and opacity, and \<^verbatim>\<open>px.imshow\<close> a colour scale;
  and, for the two calls that are handed the occupancy matrix or a view of it, the array
  as the call leaves it (\<^verbatim>\<open>np.argwhere\<close> of the matrix, \<^verbatim>\<open>px.imshow\<close> of the slice).
\<close>

record 'r libs =
  tmp_name :: "(string \<rightharpoonup> string) \<Rightarrow> string"
  load_mesh :: "(string \<rightharpoonup> string) \<Rightarrow> string \<Rightarrow> py_error + mesh"
  voxelized :: "mesh \<Rightarrow> npfloat \<Rightarrow> py_error + voxel_grid"
  random_seed :: "nat \<Rightarrow> 'r"
  random_rand :: "'r \<Rightarrow> nat \<Rightarrow> real list \<times> 'r"
  scatter3d_error :: "real \<Rightarrow> string \<Rightarrow> real \<Rightarrow> py_error option"
  imshow_error :: "string \<Rightarrow> py_error option"
  argwhere_leaves :: "ndarray3 \<Rightarrow> ndarray3"
  imshow_leaves :: "ndarray2 \<Rightarrow> ndarray2"

definition st_emit :: "ui_event \<Rightarrow> 'r world \<Rightarrow> 'r world" where
  "st_emit e w = w\<lparr>ui := ui w @ [e]\<rparr>"

subsection \<open>\<^verbatim>\<open>load_stl_file\<close>\<close>

text \<open>
  \<^verbatim>\<open>
  try:
      with tempfile.NamedTemporaryFile(delete=False, suffix='.stl') as tmp_file:
          tmp_file.write(uploaded_file.getvalue())
          tmp_file_path = tmp_file.name
      mesh_obj = trimesh.load_mesh(tmp_file_path)
      os.unlink(tmp_file_path)
      return mesh_obj
  except Exception as e:
      st.error(f"Error loading STL file: {str(e)}")
      return None
  \<close>
  Creating, writing and unlinking the temporary file are taken to succeed; the call that
  can fail is \<^verbatim>\<open>trimesh.load_mesh\<close>.  \<open>load_stl_body\<close> is the body of the \<^verbatim>\<open>try\<close>: its
  result or the exception it raises, and the state it leaves.  When \<^verbatim>\<open>load_mesh\<close> raises,
  control passes to the handler and the \<^verbatim>\<open>os.unlink\<close> line is not run.
\<close>

definition load_stl_body ::
  "'r libs \<Rightarrow> uploaded_file \<Rightarrow> 'r world \<Rightarrow> (py_error + mesh) \<times> 'r world" where
  "load_stl_body L uploaded w =
     (let tmp_file_path = tmp_name L (files w);
          w1 = w\<lparr>files := (files w)(tmp_file_path \<mapsto> getvalue uploaded)\<rparr>
      in case load_mesh L (files w1) tmp_file_path of
           Inl e \<Rightarrow> (Inl e, w1)
         | Inr mesh_obj \<Rightarrow> (Inr mesh_obj, w1\<lparr>files := (files w1)(tmp_file_path := None)\<rparr>))"

definition load_stl_file :: "'r libs \<Rightarrow> uploaded_file \<Rightarrow> 'r world \<Rightarrow> mesh option \<times> 'r world" where
  "load_stl_file L uploaded w =
     (case load_stl_body L uploaded w of
        (Inr mesh_obj, w1) \<Rightarrow> (Some mesh_obj, w1)
      | (Inl e, w1) \<Rightarrow> (None, st_emit (StError (''Error loading STL file: '' @ str_error e)) w1))"

subsection \<open>\<^verbatim>\<open>voxelize_mesh\<close>\<close>

text \<open>
  \<^verbatim>\<open>max(bounds[1] - bounds[0])\<close>: the three float64 differences, and Python's \<^verbatim>\<open>max\<close> of
  them.
\<close>

fun max_dimension :: "vec3 \<times> vec3 \<Rightarrow> npfloat" where
  "max_dimension ((x0, y0, z0), (x1, y1, z1)) =
     py_max3 (float64_sub x1 x0) (float64_sub y1 y0) (float64_sub z1 z0)"

text \<open>
  \<^verbatim>\<open>
  try:
      bounds = mesh_obj.bounds
      max_dimension = max(bounds[1] - bounds[0])
      pitch = max_dimension / resolution
      voxel_grid = mesh_obj.voxelized(pitch=pitch)
      voxel_grid._pitch = pitch
      return voxel_grid
  except Exception as e:
      st.error(f"Error voxelizing mesh: {str(e)}")
      return None
  \<close>
  \<open>voxelize_body\<close> is the body of the \<^verbatim>\<open>try\<close>: subscripting \<^verbatim>\<open>None\<close> bounds raises
  \<^verbatim>\<open>TypeError\<close>, the library call may raise, and otherwise the grid gets the attribute.
  \<open>mesh_pitch\<close> is the local \<^verbatim>\<open>pitch\<close>, the float64 quotient.
\<close>

definition mesh_pitch :: "vec3 \<times> vec3 \<Rightarrow> int \<Rightarrow> npfloat" where
  "mesh_pitch b resolution = float64_divide (max_dimension b) (of_int resolution)"

definition voxelize_body :: "'r libs \<Rightarrow> mesh \<Rightarrow> int \<Rightarrow> py_error + voxel_grid" where
  "voxelize_body L mesh_obj resolution =
     (case bounds mesh_obj of
        None \<Rightarrow> Inl (TypeError '''NoneType' object is not subscriptable'')
      | Some b \<Rightarrow>
          (let pitch = mesh_pitch b resolution
           in case voxelized L mesh_obj pitch of
                Inl e \<Rightarrow> Inl e
              | Inr grid \<Rightarrow> Inr (grid\<lparr>stored_pitch := Some pitch\<rparr>)))"

definition voxelize_mesh :: "'r libs \<Rightarrow> mesh \<Rightarrow> int \<Rightarrow> 'r world \<Rightarrow> voxel_grid option \<times> 'r world" where
  "voxelize_mesh L mesh_obj resolution w =
     (case voxelize_body L mesh_obj resolution of
        Inr grid \<Rightarrow> (Some grid, w)
      | Inl e \<Rightarrow> (None, st_emit (StError (''Error voxelizing mesh: '' @ str_error e)) w))"

subsection \<open>\<^verbatim>\<open>create_voxel_visualization\<close>\<close>

text \<open>\<^verbatim>\<open>np.mean\<close> of a non-empty integer column.\<close>

definition np_mean :: "nat list \<Rightarrow> real" where
  "np_mean v = real (sum_list v) / real (length v)"

text \<open>
  The colouring chain of the renderer (\<^verbatim>\<open>if color_by == "Z-coordinate": ... else: # Random\<close>).
  The last branch re-seeds numpy's global generator with 42 and draws one value per point;
  it is the only branch that touches the generator's state.
\<close>

definition color_values_of ::
  "'r libs \<Rightarrow> string \<Rightarrow> (nat \<times> nat \<times> nat) list \<Rightarrow> 'r \<Rightarrow> (real list \<times> string) \<times> 'r" where
  "color_values_of L color_by filled_positions g =
     (let x = map fst filled_positions;
          y = map (\<lambda>p. fst (snd p)) filled_positions;
          z = map (\<lambda>p. snd (snd p)) filled_positions
      in if color_by = ''Z-coordinate'' then ((map real z, ''Z''), g)
         else if color_by = ''Y-coordinate'' then ((map real y, ''Y''), g)
         else if color_by = ''X-coordinate'' then ((map real x, ''X''), g)
         else if color_by = ''Distance from Center'' then
           (let center_x = np_mean x; center_y = np_mean y; center_z = np_mean z
            in ((map (\<lambda>(i, j, k). sqrt ((real i - center_x)\<^sup>2 + (real j - center_y)\<^sup>2 +
                                          (real k - center_z)\<^sup>2)) filled_positions,
                 ''Distance''), g))
         else if color_by = ''Radial (XY)'' then
           (let center_x = np_mean x; center_y = np_mean y
            in ((map (\<lambda>(i, j, k). sqrt ((real i - center_x)\<^sup>2 + (real j - center_y)\<^sup>2))
                   filled_positions,
                 ''Radial XY''), g))
         else
           (let seeded = random_seed L 42;
                drawn = random_rand L seeded (length x)
            in ((fst drawn, ''Random''), snd drawn)))"

text \<open>
  The renderer receives the grid object by reference.  The one call that is handed the
  matrix is \<^verbatim>\<open>np.argwhere\<close>; everything passed on to numpy and plotly afterwards is the
  array \<^verbatim>\<open>argwhere\<close> returned, its column views \<^verbatim>\<open>x\<close>, \<^verbatim>\<open>y\<close>, \<^verbatim>\<open>z\<close>, or computed from them.
  The model returns, next to the result and the state, the grid object as the call leaves
  it: the matrix as \<^verbatim>\<open>argwhere\<close> left it, the attributes untouched.

  With no occupied cell the renderer warns and returns \<^verbatim>\<open>None\<close> before plotly is called.
  Otherwise it computes the colours (drawing random numbers in the last mode) and calls
  \<^verbatim>\<open>go.Figure(data=go.Scatter3d(...))\<close>, whose \<^verbatim>\<open>ValueError\<close> for a marker size, colour scale or
  opacity it refuses is not caught.
\<close>

definition create_voxel_visualization ::
  "'r libs \<Rightarrow> voxel_grid \<Rightarrow> string \<Rightarrow> string \<Rightarrow> real \<Rightarrow> real \<Rightarrow> 'r world
     \<Rightarrow> (py_error + scatter3d option) \<times> voxel_grid \<times> 'r world" where
  "create_voxel_visualization L grid colormap color_by marker_size opacity w =
     (let filled_positions = np_argwhere (matrix grid);
          grid1 = grid\<lparr>matrix := argwhere_leaves L (matrix grid)\<rparr>
      in if length filled_positions = 0
         then (Inr None, grid1, st_emit (StWarning ''No voxels found in the mesh'') w)
         else
           (let x = map fst filled_positions;
                y = map (\<lambda>p. fst (snd p)) filled_positions;
                z = map (\<lambda>p. snd (snd p)) filled_positions;
                colored = color_values_of L color_by filled_positions (rng w);
                w1 = w\<lparr>rng := snd colored\<rparr>
            in case scatter3d_error L marker_size colormap opacity of
                 Some e \<Rightarrow> (Inl e, grid1, w1)
               | None \<Rightarrow>
                   (Inr (Some \<lparr>fig_x = x, fig_y = y, fig_z = z,
                      fig_marker_size = marker_size,
                      fig_marker_color = fst (fst colored),
                      fig_marker_colorscale = colormap,
                      fig_marker_opacity = opacity,
                      fig_text =
                        map (\<lambda>(i, j, k). ''Voxel ('' @ str_nat i @ '','' @ str_nat j @ '','' @
                                             str_nat k @ '')'') filled_positions,
                      fig_colorbar_title = snd (fst colored),
                      fig_title_voxels = length x\<rparr>),
                    grid1, w1)))"

subsection \<open>\<^verbatim>\<open>create_slice_visualization\<close>\<close>

text \<open>
  \<^verbatim>\<open>
  volume = voxel_grid.matrix
  if slice_index is None:
      slice_index = volume.shape[{'x': 0, 'y': 1, 'z': 2}[slice_axis]] // 2
  \<close>
  An axis name outside the dictionary raises \<^verbatim>\<open>KeyError\<close>, and only on this path.
\<close>

definition default_slice_index :: "ndarray3 \<Rightarrow> string \<Rightarrow> int option \<Rightarrow> py_error + int" where
  "default_slice_index vol slice_axis slice_index =
     (case slice_index of
        Some i \<Rightarrow> Inr i
      | None \<Rightarrow>
          (case axis_number slice_axis of
             None \<Rightarrow> Inl (KeyError slice_axis)
           | Some n \<Rightarrow> Inr (int (shape_at (shape vol) n div 2))))"

text \<open>Reading and writing the slice at a position of axis 0, 1 or 2.\<close>

definition take_axis :: "nat \<Rightarrow> ndarray3 \<Rightarrow> nat \<Rightarrow> ndarray2" where
  "take_axis a vol n =
     (if a = 0 then take_axis0 vol n else if a = 1 then take_axis1 vol n else take_axis2 vol n)"

text \<open>
  The slice is a view: numpy's basic indexing copies nothing, and a write to the view is a
  write to the cells of the volume it shows.  \<open>put_axis a vol n s\<close> is the volume after the
  slice at position \<open>n\<close> of axis \<open>a\<close> has become \<open>s\<close>.
\<close>

definition put_axis :: "nat \<Rightarrow> ndarray3 \<Rightarrow> nat \<Rightarrow> ndarray2 \<Rightarrow> ndarray3" where
  "put_axis a vol n s =
     vol\<lparr>cells :=
       map (\<lambda>(i, j, k).
              if a = 0 then (if i = n then cell2 s (j, k) else cell3 vol (i, j, k))
              else if a = 1 then (if j = n then cell2 s (i, k) else cell3 vol (i, j, k))
              else (if k = n then cell2 s (i, j) else cell3 vol (i, j, k)))
           (ndindex (shape vol))\<rparr>"

text \<open>
  The chain \<^verbatim>\<open>if slice_axis == 'x': ... elif slice_axis == 'y': ... else:\<close> with the three
  subscripts; every other axis name takes the last branch.  The result is the axis and
  the position of the slice, the axis letter of the title and the two axis labels.
\<close>

definition slice_of ::
  "ndarray3 \<Rightarrow> string \<Rightarrow> int \<Rightarrow> py_error + (nat \<times> nat \<times> string \<times> string \<times> string)" where
  "slice_of vol slice_axis i =
     (case shape vol of (nx, ny, nz) \<Rightarrow>
        if slice_axis = ''x'' then
          (case np_index nx i of
             Inl e \<Rightarrow> Inl e
           | Inr n \<Rightarrow> Inr (0, n, ''X'', ''Y Coordinate'', ''Z Coordinate''))
        else if slice_axis = ''y'' then
          (case np_index ny i of
             Inl e \<Rightarrow> Inl e
           | Inr n \<Rightarrow> Inr (1, n, ''Y'', ''X Coordinate'', ''Z Coordinate''))
        else
          (case np_index nz i of
             Inl e \<Rightarrow> Inl e
           | Inr n \<Rightarrow> Inr (2, n, ''Z'', ''X Coordinate'', ''Y Coordinate'')))"

text \<open>
  Lines 126 to 142 of the script, up to the call of \<^verbatim>\<open>px.imshow\<close>: the index used, the axis
  and position of the slice, \<^verbatim>\<open>slice_data\<close>, \<^verbatim>\<open>title\<close> and the labels.
\<close>

record slice_selection =
  sel_index :: int
  sel_axis :: nat
  sel_position :: nat
  slice_data :: ndarray2
  sel_title :: string
  sel_labels :: "string \<times> string"

definition select_slice :: "ndarray3 \<Rightarrow> string \<Rightarrow> int option \<Rightarrow> py_error + slice_selection" where
  "select_slice vol slice_axis slice_index =
     (case default_slice_index vol slice_axis slice_index of
        Inl e \<Rightarrow> Inl e
      | Inr i \<Rightarrow>
          (case slice_of vol slice_axis i of
             Inl e \<Rightarrow> Inl e
           | Inr (a, n, letter, lx, ly) \<Rightarrow>
               Inr \<lparr>sel_index = i, sel_axis = a, sel_position = n,
                    slice_data = take_axis a vol n,
                    sel_title = letter @ ''-slice at index '' @ str_int i,
                    sel_labels = (lx, ly)\<rparr>))"

text \<open>
  The slice renderer shows nothing itself and draws no random number.  It hands the view
  \<^verbatim>\<open>slice_data\<close> to \<^verbatim>\<open>px.imshow\<close>, whose \<^verbatim>\<open>ValueError\<close> for a colour scale it refuses is not
  caught.  The model returns the figure or the exception, and the grid object as the
  call leaves it: untouched when no slice was taken, and otherwise with the cells of the
  slice as \<^verbatim>\<open>px.imshow\<close> left them.
\<close>

definition create_slice_visualization ::
  "'r libs \<Rightarrow> voxel_grid \<Rightarrow> string \<Rightarrow> int option \<Rightarrow> string
     \<Rightarrow> (py_error + heatmap) \<times> voxel_grid" where
  "create_slice_visualization L grid slice_axis slice_index colormap =
     (let vol = matrix grid
      in case select_slice vol slice_axis slice_index of
           Inl e \<Rightarrow> (Inl e, grid)
         | Inr sel \<Rightarrow>
             (let grid1 = grid\<lparr>matrix := put_axis (sel_axis sel) vol (sel_position sel)
                                           (imshow_leaves L (slice_data sel))\<rparr>
              in case imshow_error L colormap of
                   Some e \<Rightarrow> (Inl e, grid1)
                 | None \<Rightarrow>
                     (Inr \<lparr>img = slice_data sel,
                           heatmap_title = sel_title sel,
                           color_continuous_scale = colormap,
                           x_label = fst (sel_labels sel), y_label = snd (sel_labels sel)\<rparr>,
                      grid1)))"

subsection \<open>\<^verbatim>\<open>display_mesh_info\<close>\<close>

text \<open>
  The three locals of the voxel column:
  \<^verbatim>\<open>voxel_count = np.sum(voxel_grid.matrix)\<close>,
  \<^verbatim>\<open>total_voxels = np.prod(voxel_grid.matrix.shape)\<close> and
  \<^verbatim>\<open>fill_ratio = voxel_count / total_voxels\<close>.
\<close>

definition voxel_count :: "voxel_grid \<Rightarrow> nat" where
  "voxel_count grid = np_sum (matrix grid)"

definition total_voxels :: "voxel_grid \<Rightarrow> nat" where
  "total_voxels grid = np_prod (shape (matrix grid))"

definition fill_ratio :: "voxel_grid \<Rightarrow> npfloat" where
  "fill_ratio grid = np_true_divide (real (voxel_count grid)) (real (total_voxels grid))"

text \<open>
  The pitch line: \<^verbatim>\<open>_pitch\<close> when the grid has it; else the library's \<^verbatim>\<open>pitch\<close>, an array,
  which the format \<^verbatim>\<open>:.4f\<close> refuses with \<^verbatim>\<open>TypeError\<close>; else an estimate from the bounds and
  the largest grid dimension.
\<close>

definition pitch_line :: "mesh \<Rightarrow> voxel_grid \<Rightarrow> py_error + ui_event" where
  "pitch_line mesh_obj grid =
     (case stored_pitch grid of
        Some p \<Rightarrow> Inr (StWrite ''Voxel Pitch'' (ShowFloat4 p))
      | None \<Rightarrow>
          (case lib_pitch grid of
             Some p \<Rightarrow>
               Inl (TypeError ''unsupported format string passed to numpy.ndarray.__format__'')
           | None \<Rightarrow>
               (case bounds mesh_obj of
                  None \<Rightarrow> Inl (TypeError '''NoneType' object is not subscriptable'')
                | Some b \<Rightarrow>
                    (case shape (matrix grid) of (nx, ny, nz) \<Rightarrow>
                       Inr (StWrite ''Estimated Voxel Pitch''
                              (ShowFloat4 (float64_divide (max_dimension b)
                                 (real (max nx (max ny nz))))))))))"

definition st_emit_all :: "ui_event list \<Rightarrow> 'r world \<Rightarrow> 'r world" where
  "st_emit_all es w = w\<lparr>ui := ui w @ es\<rparr>"

text \<open>
  The panel writes its lines in order; subscripting \<^verbatim>\<open>None\<close> bounds raises after the first
  five lines of the mesh column.
\<close>

definition display_mesh_info :: "mesh \<Rightarrow> voxel_grid \<Rightarrow> 'r world \<Rightarrow> (py_error + unit) \<times> 'r world" where
  "display_mesh_info mesh_obj grid w =
     (let w1 = st_emit_all
                 [StWrite ''Vertices'' (ShowInt (int (length (vertices mesh_obj)))),
                  StWrite ''Faces'' (ShowInt (int (length (faces mesh_obj)))),
                  StWrite ''Volume'' (ShowFloat4 (Fin (volume mesh_obj))),
                  StWrite ''Surface Area'' (ShowFloat4 (Fin (area mesh_obj))),
                  StWrite ''Bounding Box'' ShowNothing] w
      in case bounds mesh_obj of
           None \<Rightarrow> (Inl (TypeError '''NoneType' object is not subscriptable''), w1)
         | Some ((x0, y0, z0), (x1, y1, z1)) \<Rightarrow>
             (let w2 = st_emit_all
                         [StWrite ''X'' (ShowRange x0 x1),
                          StWrite ''Y'' (ShowRange y0 y1),
                          StWrite ''Z'' (ShowRange z0 z1),
                          StWrite ''Grid Size'' (ShowShape (shape (matrix grid))),
                          StWrite ''Filled Voxels'' (ShowInt (int (voxel_count grid))),
                          StWrite ''Total Voxels'' (ShowInt (int (total_voxels grid))),
                          StWrite ''Fill Ratio'' (ShowFloat4 (fill_ratio grid))] w1
              in case pitch_line mesh_obj grid of
                   Inl e \<Rightarrow> (Inl e, w2)
                 | Inr line \<Rightarrow> (Inr (), st_emit line w2)))"

subsection \<open>The exports and \<^verbatim>\<open>main\<close>\<close>

text \<open>
  \<^verbatim>\<open>
  filled_positions = np.argwhere(voxel_grid.matrix)
  df = pd.DataFrame(filled_positions, columns=['X', 'Y', 'Z'])
  csv = df.to_csv(index=False)
  \<close>
\<close>

definition coordinates_csv :: "voxel_grid \<Rightarrow> string" where
  "coordinates_csv grid =
     (let filled_positions = np_argwhere (matrix grid);
          df = \<lparr>columns = [''X'', ''Y'', ''Z''], rows = filled_positions\<rparr>
      in to_csv df)"

text \<open>\<^verbatim>\<open>voxel_grid.matrix.astype(np.uint8)\<close>, saved in numpy's array format.\<close>

definition voxel_data :: "voxel_grid \<Rightarrow> download_data" where
  "voxel_data grid =
     NpyArray (shape (matrix grid)) (map (\<lambda>b. if b then 1 else 0) (cells (matrix grid)))"

text \<open>The values the widgets return in one run.\<close>

record widgets =
  w_resolution :: int
  w_selected_colormap :: string
  w_color_by :: string
  w_opacity :: real
  w_marker_size :: real
  w_slice_axis :: string
  w_slice_index :: int
  w_slice_colormap :: string
  w_download_npy :: bool
  w_download_csv :: bool

text \<open>\<^verbatim>\<open>uploaded_file.name[:-4]\<close>\<close>

definition strip_suffix4 :: "string \<Rightarrow> string" where
  "strip_suffix4 s = take (length s - 4) s"


text \<open>
  The part of \<^verbatim>\<open>main\<close> that runs once a grid exists: info panel, 3D chart (shown when the
  renderer returned a figure), slice chart, and the two download buttons when clicked.
  An exception of the panel or of a renderer is not caught here.  The grid object the
  later steps read is the one the earlier calls left.
\<close>

definition show_grid ::
  "'r libs \<Rightarrow> uploaded_file \<Rightarrow> widgets \<Rightarrow> mesh \<Rightarrow> voxel_grid \<Rightarrow> 'r world
     \<Rightarrow> (py_error + unit) \<times> 'r world" where
  "show_grid L uploaded W mesh_obj grid w =
     (case display_mesh_info mesh_obj grid w of
        (Inl e, w1) \<Rightarrow> (Inl e, w1)
      | (Inr u, w1) \<Rightarrow>
          (case create_voxel_visualization L grid (w_selected_colormap W) (w_color_by W)
                  (w_marker_size W) (w_opacity W) w1 of
             (Inl e, grid1, w2) \<Rightarrow> (Inl e, w2)
           | (Inr fig_3d, grid1, w2) \<Rightarrow>
               (let w3 = (case fig_3d of None \<Rightarrow> w2 | Some fig \<Rightarrow> st_emit (PlotlyChart3d fig) w2)
                in case create_slice_visualization L grid1 (w_slice_axis W)
                          (Some (w_slice_index W)) (w_slice_colormap W) of
                     (Inl e, grid2) \<Rightarrow> (Inl e, w3)
                   | (Inr fig_slice, grid2) \<Rightarrow>
                       (let w4 = st_emit (PlotlyChartSlice fig_slice) w3;
                            w5 = (if w_download_npy W
                                  then st_emit (DownloadButton ''Download Voxel Array''
                                         (voxel_data grid2)
                                         (strip_suffix4 (name uploaded) @ ''_voxels.npy'')
                                         ''application/octet-stream'') w4
                                  else w4);
                            w6 = (if w_download_csv W
                                  then st_emit (DownloadButton ''Download Voxel Coordinates''
                                         (CsvText (coordinates_csv grid2))
                                         (strip_suffix4 (name uploaded) @ ''_coordinates.csv'')
                                         ''text/csv'') w5
                                  else w5)
                        in (Inr (), w6)))))"

text \<open>
  \<^verbatim>\<open>
  try:
      st.image("image.png", use_column_width=False)
  except:
      st.warning("Image 'image.png' not found in the current directory")
  \<close>
\<close>

definition show_image :: "'r world \<Rightarrow> 'r world" where
  "show_image w =
     (if ''image.png'' \<in> dom (files w) then st_emit (StImage ''image.png'') w
      else st_emit (StWarning ''Image 'image.png' not found in the current directory'') w)"

text \<open>
  \<^verbatim>\<open>main\<close>: the branding image, then, with a file uploaded, load, voxelize and show; each
  step runs only if the one before returned an object (\<^verbatim>\<open>if mesh_obj is not None\<close>,
  \<^verbatim>\<open>if voxel_grid is not None\<close>).
\<close>

definition main ::
  "'r libs \<Rightarrow> uploaded_file option \<Rightarrow> widgets \<Rightarrow> 'r world \<Rightarrow> (py_error + unit) \<times> 'r world" where
  "main L upload W w0 =
     (let w = show_image w0
      in case upload of
           None \<Rightarrow> (Inr (), st_emit (StInfo ''Upload an STL file to get started!'') w)
         | Some uploaded \<Rightarrow>
             (case load_stl_file L uploaded w of
                (None, w1) \<Rightarrow> (Inr (), w1)
              | (Some mesh_obj, w1) \<Rightarrow>
                  (case voxelize_mesh L mesh_obj (w_resolution W) w1 of
                     (None, w2) \<Rightarrow> (Inr (), w2)
                   | (Some grid, w2) \<Rightarrow> show_grid L uploaded W mesh_obj grid w2)))"

subsection \<open>A small instance\<close>

text \<open>
  Concrete values to run the functions above on: a tetrahedron with bounding box
  \<open>(0,0,0)\<close> to \<open>(4,10,2)\<close>, a mesh of a single point, a mesh with nothing in it, a grid of
  shape \<open>(1, 2, 2)\<close> with two occupied cells, and stand-ins for the library routines.

  The stand-in loader knows three STL texts: the tetrahedron, the single point, and one
  with twenty-one words where the numbers of a facet belong, on which it raises as
  \<^verbatim>\<open>trimesh.load_mesh\<close> does when it converts them; for every other content, such as
  \<open>''junk''\<close>, it returns the mesh with nothing in it.  The stand-in voxelizer accepts a
  positive finite pitch.  The stand-in generator's draws depend on its state.  The stand-in
  for plotly's validation knows thirty-one of the colour schemes of \<^verbatim>\<open>main\<close> and refuses every
  other name, \<open>Cool\<close>, \<open>Spring\<close>, \<open>Summer\<close>, \<open>Autumn\<close> and \<open>Winter\<close> among them, as it refuses a
  negative size and an opacity outside \<open>[0, 1]\<close>; its messages are shortened.  The stand-ins
  for \<^verbatim>\<open>argwhere\<close> and \<^verbatim>\<open>imshow\<close> leave the array they are handed as it is.
\<close>

definition example_mesh :: mesh where
  "example_mesh =
     \<lparr>vertices = [(0, 0, 0), (4, 0, 0), (0, 10, 0), (0, 0, 2)],
      faces = [(0, 2, 1), (0, 1, 3), (0, 3, 2), (1, 2, 3)],
      volume = 40 / 3,
      area = 34 + sqrt 516,
      bounds = Some ((0, 0, 0), (4, 10, 2))\<rparr>"

definition flat_mesh :: mesh where
  "flat_mesh =
     \<lparr>vertices = [(1, 1, 1)], faces = [(0, 0, 0)], volume = 0, area = 0,
      bounds = Some ((1, 1, 1), (1, 1, 1))\<rparr>"

definition no_mesh :: mesh where
  "no_mesh = \<lparr>vertices = [], faces = [], volume = 0, area = 0, bounds = None\<rparr>"

definition example_matrix :: ndarray3 where
  "example_matrix = \<lparr>shape = (1, 2, 2), cells = [True, False, False, True]\<rparr>"

definition example_grid :: voxel_grid where
  "example_grid =
     \<lparr>matrix = example_matrix, stored_pitch = None, lib_pitch = None, origin = (0, 0, 0)\<rparr>"

definition empty_grid :: voxel_grid where
  "empty_grid =
     \<lparr>matrix = \<lparr>shape = (0, 0, 0), cells = []\<rparr>,
      stored_pitch = None, lib_pitch = None, origin = (0, 0, 0)\<rparr>"


text \<open>The texts of the three STL files.\<close>

definition stl_text :: "string list \<Rightarrow> string" where
  "stl_text ls = concat (map (\<lambda>l. l @ [newline]) ls)"

definition stl_facet :: "string \<Rightarrow> string \<Rightarrow> string \<Rightarrow> string list" where
  "stl_facet a b c =
     [''facet normal 0 0 0'', ''outer loop'', ''vertex '' @ a, ''vertex '' @ b, ''vertex '' @ c,
      ''endloop'', ''endfacet'']"

definition tetrahedron_stl :: string where
  "tetrahedron_stl =
     stl_text ([''solid part''] @
       stl_facet ''0 0 0'' ''0 10 0'' ''4 0 0'' @
       stl_facet ''0 0 0'' ''4 0 0'' ''0 0 2'' @
       stl_facet ''0 0 0'' ''0 0 2'' ''0 10 0'' @
       stl_facet ''4 0 0'' ''0 10 0'' ''0 0 2'' @
       [''endsolid part''])"

definition point_stl :: string where
  "point_stl =
     stl_text ([''solid dot''] @ stl_facet ''1 1 1'' ''1 1 1'' ''1 1 1'' @ [''endsolid dot''])"

definition words_stl :: string where
  "words_stl = stl_text [''solid s'', concat (replicate 21 ''a '')]"

definition example_load_mesh :: "(string \<rightharpoonup> string) \<Rightarrow> string \<Rightarrow> py_error + mesh" where
  "example_load_mesh fs path =
     (case fs path of
        None \<Rightarrow> Inl (Exception ''file not found'')
      | Some content \<Rightarrow>
          if content = tetrahedron_stl then Inr example_mesh
          else if content = point_stl then Inr flat_mesh
          else if content = words_stl
            then Inl (ValueError (''could not convert string to float: 'a'' @ [CHR 0x27]))
          else Inr no_mesh)"

fun example_voxelized :: "mesh \<Rightarrow> npfloat \<Rightarrow> py_error + voxel_grid" where
  "example_voxelized m (Fin r) =
     (if 0 < r then Inr example_grid else Inl (Exception ''pitch must be positive''))"
| "example_voxelized m PosInf = Inl (Exception ''pitch must be finite'')"
| "example_voxelized m NegInf = Inl (Exception ''pitch must be finite'')"
| "example_voxelized m NaN = Inl (Exception ''pitch must be finite'')"

definition example_rand :: "nat \<Rightarrow> nat \<Rightarrow> real list \<times> nat" where
  "example_rand g n = (map (\<lambda>i. real ((g + i) mod 7) / 7) [0..<n], g + n)"

definition example_colorscales :: "string list" where
  "example_colorscales =
     [''Viridis'', ''Plasma'', ''Inferno'', ''Magma'', ''Cividis'',
      ''Turbo'', ''Rainbow'', ''Jet'', ''Hot'', ''Spectral'', ''RdYlBu'', ''RdBu'', ''PiYG'',
      ''BrBG'', ''RdGy'', ''PuOr'', ''Sunset'', ''Sunsetdark'', ''Oryel'',
      ''Peach'', ''Pinkyl'', ''Mint'', ''BluGrn'', ''Darkmint'', ''Electric'',
      ''Plotly3'', ''Deep'', ''Dense'', ''Haline'', ''Ice'', ''Thermal'']"

definition example_imshow_error :: "string \<Rightarrow> py_error option" where
  "example_imshow_error colormap =
     (if colormap \<in> set example_colorscales then None
      else Some (ValueError ''Invalid value for the colorscale property''))"

definition example_scatter3d_error :: "real \<Rightarrow> string \<Rightarrow> real \<Rightarrow> py_error option" where
  "example_scatter3d_error marker_size colormap opacity =
     (if marker_size < 0 then Some (ValueError ''Invalid value for the size property'')
      else if colormap \<notin> set example_colorscales
        then Some (ValueError ''Invalid value for the colorscale property'')
      else if opacity < 0 \<or> 1 < opacity
        then Some (ValueError ''Invalid value for the opacity property'')
      else None)"

definition example_libs :: "nat libs" where
  "example_libs =
     \<lparr>tmp_name = (\<lambda>fs. ''/tmp/tmp0.stl''),
      load_mesh = example_load_mesh,
      voxelized = example_voxelized,
      random_seed = (\<lambda>s. s),
      random_rand = example_rand,
      scatter3d_error = example_scatter3d_error,
      imshow_error = example_imshow_error,
      argwhere_leaves = (\<lambda>a. a),
      imshow_leaves = (\<lambda>s. s)\<rparr>"

text \<open>The same routines, but with an \<^verbatim>\<open>imshow\<close> that inverts the array it is handed.\<close>

definition scribbling_libs :: "nat libs" where
  "scribbling_libs = example_libs\<lparr>imshow_leaves := (\<lambda>s. s\<lparr>cells2 := map Not (cells2 s)\<rparr>)\<rparr>"

definition example_world :: "nat world" where
  "example_world = \<lparr>files = Map.empty, ui = [], rng = 7\<rparr>"

definition good_upload :: uploaded_file where
  "good_upload = \<lparr>name = ''part.stl'', getvalue = tetrahedron_stl\<rparr>"

definition bad_upload :: uploaded_file where
  "bad_upload = \<lparr>name = ''words.stl'', getvalue = words_stl\<rparr>"

definition junk_upload :: uploaded_file where
  "junk_upload = \<lparr>name = ''junk.stl'', getvalue = ''junk''\<rparr>"

definition flat_upload :: uploaded_file where
  "flat_upload = \<lparr>name = ''dot.stl'', getvalue = point_stl\<rparr>"

definition example_widgets :: widgets where
  "example_widgets =
     \<lparr>w_resolution = 50, w_selected_colormap = ''Viridis'', w_color_by = ''Z-coordinate'',
      w_opacity = 4 / 5, w_marker_size = 4, w_slice_axis = ''z'', w_slice_index = 1,
      w_slice_colormap = ''Viridis'', w_download_npy = False, w_download_csv = True\<rparr>"

section \<open>Properties of the embedding\<close>

subsection \<open>Rounding\<close>

text \<open>
  Powers of two, the exponent search, and the error of rounding: in the normal range the
  rounded value is within the relative error \<open>2\<^sup>-\<^sup>5\<^sup>3\<close> of the number rounded.
\<close>

lemma two_powi_Suc: "(2::real) powi (k + 1) = 2 * 2 powi k"
  by (simp add: power_int_add)

lemma two_powi_pred: "(2::real) powi (k - 1) = 2 powi k / 2"
  by (simp add: power_int_diff)

lemma two_powi_mono: "k \<le> l \<Longrightarrow> (2::real) powi k \<le> 2 powi l"
  by (rule power_int_increasing) simp_all

lemma two_powi_less_imp: "(2::real) powi k < 2 powi l \<Longrightarrow> k < l"
  using two_powi_mono [of l k] by (cases "k < l") auto

lemma binade_bracket:
  assumes "2 powi (- int n) \<le> x" and "x < 2 powi (int n + 1)"
  shows "2 powi (binade n x) \<le> x \<and> x < 2 powi (binade n x + 1)"
  using assms
proof (induction n arbitrary: x)
  case 0
  then show ?case by (simp add: binade.simps)
next
  case (Suc n)
  have low: "(2::real) powi (- int n) \<le> 1"
    using two_powi_mono [of "- int n" 0] by simp
  have high: "(2::real) \<le> 2 powi (int n + 1)"
    using two_powi_mono [of 1 "int n + 1"] by simp
  consider (big) "2 \<le> x" | (small) "x < 1" | (mid) "1 \<le> x" "x < 2"
    by linarith
  then show ?case
  proof cases
    case big
    have b: "binade (Suc n) x = binade n (x / 2) + 1"
      using big by (subst binade.simps) simp
    have "x < 2 * 2 powi (int n + 1)"
      using Suc.prems(2) two_powi_Suc [of "int n + 1"] by (simp add: add.commute)
    then have "2 powi (- int n) \<le> x / 2" and "x / 2 < 2 powi (int n + 1)"
      using big low by simp_all
    from Suc.IH [OF this]
    have "2 powi (binade n (x / 2)) \<le> x / 2" and "x / 2 < 2 powi (binade n (x / 2) + 1)"
      by simp_all
    then show ?thesis
      unfolding b using two_powi_Suc [of "binade n (x / 2)"] two_powi_Suc [of "binade n (x / 2) + 1"]
      by simp
  next
    case small
    have b: "binade (Suc n) x = binade n (x * 2) - 1"
      using small by (subst binade.simps) simp
    have "(2::real) powi (- int n) = 2 * 2 powi (- int (Suc n))"
      using two_powi_Suc [of "- int (Suc n)"] by simp
    then have "2 powi (- int n) \<le> x * 2" and "x * 2 < 2 powi (int n + 1)"
      using Suc.prems(1) small high by simp_all
    from Suc.IH [OF this]
    have "2 powi (binade n (x * 2)) \<le> x * 2" and "x * 2 < 2 powi (binade n (x * 2) + 1)"
      by simp_all
    then show ?thesis
      unfolding b
      using two_powi_pred [of "binade n (x * 2)"] two_powi_Suc [of "binade n (x * 2)"]
      by simp
  next
    case mid
    have "binade (Suc n) x = 0"
      using mid by (subst binade.simps) simp
    with mid show ?thesis by simp
  qed
qed

lemma round_half_even_close: "\<bar>of_int (round_half_even y) - y\<bar> \<le> 1 / 2"
proof -
  have "of_int \<lfloor>y\<rfloor> \<le> y" and "y < of_int \<lfloor>y\<rfloor> + 1"
    by linarith+
  then show ?thesis
    by (auto simp: round_half_even_def Let_def)
qed

lemma float64_round_normal:
  assumes "2 powi (- 1022) \<le> x" and "x \<le> 2 powi 1022"
  shows "\<exists>y. float64_round x = Fin y \<and> \<bar>y - x\<bar> \<le> x / 2 ^ 53"
proof -
  define e where "e = binade 1100 x"
  have pos: "0 < x"
    using assms(1) zero_less_power_int [of "2::real" "- 1022"] by linarith
  have "(2::real) powi (- int 1100) \<le> 2 powi (- 1022)"
    by (rule two_powi_mono) simp
  moreover have "(2::real) powi 1022 < 2 powi (int 1100 + 1)"
    by (rule power_int_strict_increasing) simp_all
  ultimately have "2 powi (- int 1100) \<le> x" and "x < 2 powi (int 1100 + 1)"
    using assms by linarith+
  from binade_bracket [OF this]
  have lo: "2 powi e \<le> x" and hi: "x < 2 powi (e + 1)"
    by (simp_all add: e_def)
  have "(2::real) powi (- 1022) < 2 powi (e + 1)"
    using assms(1) hi by linarith
  then have "- 1022 < e + 1" by (rule two_powi_less_imp)
  then have ex: "float64_exponent x = e"
    using pos by (simp add: float64_exponent_def e_def)
  define ulp :: real where "ulp = 2 powi (e - 52)"
  define y where "y = of_int (round_half_even (x / ulp)) * ulp"
  have ulp_pos: "0 < ulp" by (simp add: ulp_def)
  have ulp_eq: "ulp = 2 powi e / 2 ^ 52"
    by (simp add: ulp_def power_int_diff)
  have "\<bar>y - x\<bar> = \<bar>of_int (round_half_even (x / ulp)) - x / ulp\<bar> * ulp"
    using ulp_pos by (simp add: y_def abs_mult [symmetric] field_simps)
  also have "\<dots> \<le> (1 / 2) * ulp"
    using round_half_even_close [of "x / ulp"] ulp_pos by (intro mult_right_mono) simp_all
  also have "\<dots> = 2 powi e / 2 ^ 53"
    by (simp add: ulp_eq)
  also have "\<dots> \<le> x / 2 ^ 53"
    using lo by (simp add: divide_right_mono)
  finally have close: "\<bar>y - x\<bar> \<le> x / 2 ^ 53" .
  have "x / 2 ^ 53 \<le> x" using pos by (simp add: field_simps)
  with close have "\<bar>y\<bar> \<le> 2 * x" by linarith
  also have "\<dots> \<le> 2 powi 1023"
    using assms(2) two_powi_Suc [of 1022] by simp
  also have "\<dots> < 2 powi 1024"
    by (rule power_int_strict_increasing) simp_all
  finally have fin: "\<not> 2 powi 1024 \<le> \<bar>y\<bar>" by simp
  have "float64_round x = Fin y"
    using pos fin unfolding float64_round_def ex Let_def ulp_def [symmetric] y_def [symmetric]
    by simp
  with close show ?thesis by blast
qed

lemma float64_round_positive:
  assumes "2 powi (- 1022) \<le> x" and "x \<le> 2 powi 1022"
  shows "\<exists>y. float64_round x = Fin y \<and> \<bar>y - x\<bar> \<le> x / 2 ^ 53 \<and> 0 < y"
proof -
  from float64_round_normal [OF assms] obtain y
    where y: "float64_round x = Fin y" "\<bar>y - x\<bar> \<le> x / 2 ^ 53" by blast
  have "0 < x"
    using assms(1) zero_less_power_int [of "2::real" "- 1022"] by linarith
  then have "x / 2 ^ 53 < x" by (simp add: field_simps)
  with y(2) have "0 < y" by linarith
  with y show ?thesis by blast
qed

text \<open>
  Dividing by a rounded quotient: if \<open>p\<close> is within \<open>2\<^sup>-\<^sup>5\<^sup>3\<close> of \<open>m / r\<close> and \<open>q\<close> within
  \<open>2\<^sup>-\<^sup>5\<^sup>3\<close> of \<open>m / p\<close>, then \<open>q\<close> is within \<open>2\<^sup>-\<^sup>5\<^sup>1\<close> of \<open>r\<close>.
\<close>

lemma quotient_near:
  fixes m r p q :: real
  assumes m: "0 < m" and r: "0 < r" and p: "\<bar>p - m / r\<bar> \<le> (m / r) / 2 ^ 53"
    and q: "\<bar>q - m / p\<bar> \<le> (m / p) / 2 ^ 53"
  shows "\<bar>q - r\<bar> \<le> r / 2 ^ 51"
proof -
  define t where "t = m / r"
  have t: "0 < t" using m r by (simp add: t_def)
  have mt: "m = t * r" using r by (simp add: t_def)
  have "t / 2 ^ 53 \<le> t / 2" using t by (simp add: field_simps)
  with p have half: "t / 2 \<le> p" unfolding t_def [symmetric] by linarith
  then have pp: "0 < p" using t by linarith
  have mp: "m / p \<le> 2 * r"
  proof -
    have "m / p \<le> m / (t / 2)"
      using half t m by (intro divide_left_mono) simp_all
    also have "\<dots> = 2 * r" using t by (simp add: mt)
    finally show ?thesis .
  qed
  have "m / p - r = r * (t - p) / p"
    using pp by (simp add: mt field_simps)
  then have "\<bar>m / p - r\<bar> = r * \<bar>t - p\<bar> / p"
    using pp r by (simp add: abs_mult)
  also have "\<dots> \<le> r * (t / 2 ^ 53) / p"
  proof -
    have "\<bar>t - p\<bar> \<le> t / 2 ^ 53"
      using p unfolding t_def [symmetric] by (simp add: abs_minus_commute)
    then show ?thesis
      using r pp by (intro divide_right_mono mult_left_mono) simp_all
  qed
  also have "\<dots> = (m / p) / 2 ^ 53"
    by (simp add: mt mult.commute)
  finally have d: "\<bar>m / p - r\<bar> \<le> (m / p) / 2 ^ 53" .
  have "\<bar>q - r\<bar> \<le> \<bar>q - m / p\<bar> + \<bar>m / p - r\<bar>" by linarith
  also have "\<dots> \<le> 2 * ((m / p) / 2 ^ 53)" using q d by linarith
  also have "\<dots> \<le> 2 * ((2 * r) / 2 ^ 53)"
    using mp by (intro mult_left_mono divide_right_mono) simp_all
  also have "\<dots> = r / 2 ^ 51" by simp
  finally show ?thesis .
qed

lemma float64_round_finite:
  assumes "float64_round x = Fin y"
  shows "\<bar>y\<bar> < 2 powi 1024"
  using assms by (auto simp: float64_round_def Let_def split: if_splits)

text \<open>
  A positive number below half the smallest positive float64 rounds to zero.
\<close>

lemma float64_round_underflow:
  assumes "2 powi (- 1100) \<le> x" and "x < 2 powi (- 1075)"
  shows "float64_round x = Fin 0"
proof -
  have pos: "0 < x"
    using assms(1) zero_less_power_int [of "2::real" "- 1100"] by linarith
  have "(2::real) powi (- 1075) < 2 powi (int 1100 + 1)"
    by (rule power_int_strict_increasing) simp_all
  with assms have "2 powi (- int 1100) \<le> x" and "x < 2 powi (int 1100 + 1)"
    by simp_all
  from binade_bracket [OF this] have "2 powi (binade 1100 x) \<le> x" by simp
  with assms(2) have "(2::real) powi (binade 1100 x) < 2 powi (- 1075)" by linarith
  then have "binade 1100 x < - 1075" by (rule two_powi_less_imp)
  then have ex: "float64_exponent x = - 1022"
    using pos by (simp add: float64_exponent_def)
  define u :: real where "u = 2 powi (- 1074)"
  define t where "t = x / u"
  have upos: "0 < u" by (simp add: u_def)
  have "(2::real) powi (- 1075) = u / 2"
    using two_powi_pred [of "- 1074"] by (simp add: u_def)
  with assms(2) have "x < u / 2" by simp
  then have t: "0 < t" "t < 1 / 2"
    using pos upos by (simp_all add: t_def field_simps)
  then have "\<lfloor>t\<rfloor> = 0" by (simp add: floor_eq_iff)
  with t have r0: "round_half_even t = 0"
    by (simp add: round_half_even_def Let_def)
  have e: "(- 1022::int) - 52 = - 1074" by simp
  show ?thesis
    unfolding float64_round_def ex e u_def [symmetric] Let_def t_def [symmetric] r0
    using pos by simp
qed

lemma float64_divide_underflow:
  "float64_divide (Fin (2 powi (- 1074))) 10 = Fin 0"
proof -
  have "float64_round (2 powi (- 1074) / 10) = Fin 0"
  proof (rule float64_round_underflow)
    have "(2::real) powi (- 1100) \<le> 2 powi (- 1078)" by (rule two_powi_mono) simp
    also have "\<dots> = 2 powi (- 1074) / 2 powi 4" by (simp add: power_int_diff)
    also have "\<dots> \<le> 2 powi (- 1074) / 10" by (intro divide_left_mono) simp_all
    finally show "(2::real) powi (- 1100) \<le> 2 powi (- 1074) / 10" .
    have "(2::real) powi (- 1074) / 10 < 2 powi (- 1074) / 2" by (simp add: field_simps)
    also have "\<dots> = 2 powi (- 1075)" using two_powi_pred [of "- 1074"] by simp
    finally show "(2::real) powi (- 1074) / 10 < 2 powi (- 1075)" .
  qed
  then show ?thesis
    by (simp add: float64_divide_def np_true_divide_def)
qed

lemma float64_divide_zero: "b \<noteq> 0 \<Longrightarrow> float64_divide (Fin 0) b = Fin 0"
  by (simp add: float64_divide_def np_true_divide_def float64_round_def)

lemma py_max3_cases: "py_max3 a b c = a \<or> py_max3 a b c = b \<or> py_max3 a b c = c"
  by (simp add: py_max3_def Let_def)

lemma max_dimension_finite:
  assumes "max_dimension b = Fin m"
  shows "\<bar>m\<bar> < 2 powi 1024"
proof -
  obtain x0 y0 z0 x1 y1 z1 where b: "b = ((x0, y0, z0), (x1, y1, z1))"
    by (metis prod_cases3)
  from py_max3_cases [of "float64_sub x1 x0" "float64_sub y1 y0" "float64_sub z1 z0"] assms
  have "float64_sub x1 x0 = Fin m \<or> float64_sub y1 y0 = Fin m \<or> float64_sub z1 z0 = Fin m"
    by (auto simp: b)
  then show ?thesis
    by (auto simp: float64_sub_def dest: float64_round_finite)
qed

text \<open>
  The arithmetic on the numbers of the small instance.
\<close>

lemmas float64_simps =
  float64_round_def float64_exponent_def binade.simps round_half_even_def Let_def
  float64_sub_def float64_divide_def np_true_divide_def py_max3_def power_int_minus

lemma max_dimension_example: "max_dimension ((0, 0, 0), (4, 10, 2)) = Fin 10"
  by (simp add: float64_simps)

lemma max_dimension_flat: "max_dimension ((1, 1, 1), (1, 1, 1)) = Fin 0"
  by (simp add: float64_simps)

lemma pitch_29: "float64_divide (Fin 10) 29 = Fin (1552965388748447 / 4503599627370496)"
  by (simp add: float64_simps)

lemma back_29: "float64_divide (Fin 10) (1552965388748447 / 4503599627370496)
    = Fin (8162774324609023 / 281474976710656)"
  by (simp add: float64_simps)

lemma pitch_50: "float64_divide (Fin 10) 50 = Fin (3602879701896397 / 18014398509481984)"
  by (simp add: float64_simps)

lemma back_50: "float64_divide (Fin 10) (3602879701896397 / 18014398509481984) = Fin 50"
  by (simp add: float64_simps)

subsection \<open>Row-major enumeration\<close>

text \<open>
  Listing the index triples of a shape in row-major order and taking their offsets
  gives \<open>0, 1, \<dots>\<close> up to the number of cells; so \<^verbatim>\<open>argwhere\<close> has as many rows as the
  array has True cells.
\<close>

lemma product_upt_Suc:
  "List.product [0..<Suc m] qs = List.product [0..<m] qs @ map (Pair m) qs"
proof -
  have "List.product (xs @ [x]) qs = List.product xs qs @ map (Pair x) qs" for xs :: "nat list" and x
    by (induction xs) simp_all
  then show ?thesis by simp
qed

lemma map_offset_product:
  assumes "map g qs = [0..<M]"
  shows "map (\<lambda>(i, p). i * M + g p) (List.product [0..<m] qs) = [0..<m * M]"
proof (induction m)
  case 0
  show ?case by simp
next
  case (Suc m)
  have "map (\<lambda>p. m * M + g p) qs = map (\<lambda>n. m * M + n) (map g qs)"
    by simp
  also have "\<dots> = [m * M..<m * M + M]"
    unfolding assms by (simp add: map_add_upt add.commute)
  finally have last: "map (\<lambda>p. m * M + g p) qs = [m * M..<m * M + M]" .
  have "map (\<lambda>(i, p). i * M + g p) (List.product [0..<Suc m] qs)
          = [0..<m * M] @ map (\<lambda>p. m * M + g p) qs"
    unfolding product_upt_Suc using Suc by (simp add: comp_def)
  also have "\<dots> = [0..<m * M + M]"
    unfolding last using upt_add_eq_append [of 0 "m * M" M] by simp
  finally show ?case by (simp add: add.commute)
qed

lemma map_offset2_product:
  "map (offset2 (n0, n1)) (List.product [0..<n0] [0..<n1]) = [0..<n0 * n1]"
proof -
  have "map (\<lambda>(i, p). i * n1 + id p) (List.product [0..<n0] [0..<n1]) = [0..<n0 * n1]"
    by (rule map_offset_product) simp
  moreover have "offset2 (n0, n1) = (\<lambda>(i, p). i * n1 + id p)"
    by (auto simp: fun_eq_iff)
  ultimately show ?thesis by simp
qed

lemma map_offset3_ndindex:
  "map (offset3 sh) (ndindex sh) = [0..<np_prod sh]"
proof (cases sh)
  case (fields nx ny nz)
  have inner: "map (offset2 (ny, nz)) (List.product [0..<ny] [0..<nz]) = [0..<ny * nz]"
    by (rule map_offset2_product)
  have "map (\<lambda>(i, p). i * (ny * nz) + offset2 (ny, nz) p)
          (List.product [0..<nx] (List.product [0..<ny] [0..<nz])) = [0..<nx * (ny * nz)]"
    by (rule map_offset_product [OF inner])
  moreover have "offset3 (nx, ny, nz) = (\<lambda>(i, p). i * (ny * nz) + offset2 (ny, nz) p)"
    by (auto simp: fun_eq_iff)
  ultimately show ?thesis using fields by (simp add: mult.assoc)
qed

lemma length_filter_nth:
  "length (filter (\<lambda>n. cs ! n) [0..<length cs]) = length (filter (\<lambda>b. b) cs)"
proof -
  have "filter (\<lambda>b. b) cs = filter (\<lambda>b. b) (map (nth cs) [0..<length cs])"
    by (simp add: map_nth)
  also have "length \<dots> = length (filter (\<lambda>n. cs ! n) [0..<length cs])"
    by (simp add: length_filter_map comp_def del: map_nth)
  finally show ?thesis by simp
qed

lemma length_np_argwhere:
  assumes "wf_ndarray3 a"
  shows "length (np_argwhere a) = np_sum a"
proof -
  have "length (np_argwhere a)
          = length (filter (\<lambda>n. cells a ! n) (map (offset3 (shape a)) (ndindex (shape a))))"
    by (simp add: np_argwhere_def cell3_def [abs_def] length_filter_map comp_def)
  also have "\<dots> = length (filter (\<lambda>n. cells a ! n) [0..<length (cells a)])"
    using assms by (simp add: map_offset3_ndindex wf_ndarray3_def)
  also have "\<dots> = np_sum a"
    by (simp add: length_filter_nth np_sum_def)
  finally show ?thesis .
qed

lemma np_sum_le: "wf_ndarray3 a \<Longrightarrow> np_sum a \<le> np_prod (shape a)"
  using length_filter_le [of "\<lambda>b. b" "cells a"] by (simp add: np_sum_def wf_ndarray3_def)

subsection \<open>Order and contents of \<^verbatim>\<open>argwhere\<close>\<close>

lemma sorted_wrt_product:
  fixes xs :: "('a::linorder) list" and ys :: "('b::linorder) list"
  assumes "sorted_wrt (<) xs" "sorted_wrt (<) ys"
  shows "sorted_wrt (<) (List.product xs ys)"
  using assms
proof (induction xs)
  case Nil
  show ?case by simp
next
  case (Cons x xs)
  have row: "sorted_wrt (<) (map (Pair x) ys)"
    using Cons.prems(2) by (simp add: sorted_wrt_map less_prod_def)
  have rest: "sorted_wrt (<) (List.product xs ys)"
    using Cons by simp
  have cross: "\<forall>p \<in> set (map (Pair x) ys). \<forall>q \<in> set (List.product xs ys). p < q"
    using Cons.prems(1) by (auto simp: less_prod_def)
  show ?case
    using row rest cross by (simp add: sorted_wrt_append)
qed

lemma sorted_upt_less: "sorted_wrt (<) [0..<n]"
  by (simp add: sorted_wrt_iff_nth_less)

lemma sorted_ndindex: "sorted_wrt (<) (ndindex sh)"
  by (cases sh) (simp add: sorted_wrt_product)

lemma sorted_np_argwhere: "sorted_wrt (<) (np_argwhere a)"
  unfolding np_argwhere_def by (rule sorted_wrt_filter) (rule sorted_ndindex)

lemma set_ndindex: "set (ndindex (nx, ny, nz)) = {(i, j, k). i < nx \<and> j < ny \<and> k < nz}"
  by (auto simp del: upt_Suc)

lemma set_np_argwhere:
  "shape a = (nx, ny, nz) \<Longrightarrow>
   set (np_argwhere a) = {(i, j, k). i < nx \<and> j < ny \<and> k < nz \<and> cell3 a (i, j, k)}"
  by (auto simp: np_argwhere_def set_ndindex simp del: ndindex.simps)

lemma zip_columns: "zip (map fst ps) (zip (map (\<lambda>p. fst (snd p)) ps) (map (\<lambda>p. snd (snd p)) ps)) = ps"
  by (induction ps) auto

subsection \<open>Reading the exported table\<close>

lemma split_on_ne: "split_on c s \<noteq> []"
  by (induction s) auto

lemma split_on_no_sep: "c \<notin> set s \<Longrightarrow> split_on c s = [s]"
  by (induction s) auto

lemma split_on_append_sep:
  "c \<notin> set a \<Longrightarrow> split_on c (a @ c # r) = a # split_on c r"
  by (induction a) auto

lemma digit_char_in: "d < 10 \<Longrightarrow> digit_char d \<in> set ''0123456789''"
  unfolding digit_char_def by (rule nth_mem) simp

lemma set_str_nat: "set (str_nat n) \<subseteq> set ''0123456789''"
proof (induction n rule: str_nat.induct)
  case (1 n)
  show ?case
  proof (cases "n < 10")
    case True
    then show ?thesis using digit_char_in [of n] by (subst str_nat.simps) simp
  next
    case False
    have "n mod 10 < 10" by simp
    then have "digit_char (n mod 10) \<in> set ''0123456789''" by (rule digit_char_in)
    with False 1 show ?thesis by (subst str_nat.simps) simp
  qed
qed

lemma comma_notin_str_nat: "comma \<notin> set (str_nat n)"
  using set_str_nat [of n] by (auto simp: comma_def)

lemma newline_notin_str_nat: "newline \<notin> set (str_nat n)"
  using set_str_nat [of n] by (auto simp: newline_def)

lemma csv_line3: "csv_line [a, b, c] = a @ comma # b @ comma # c @ [newline]"
  by simp

lemma split_on_lines:
  assumes "\<forall>l \<in> set ls. newline \<notin> set l"
  shows "split_on newline (concat (map (\<lambda>l. l @ [newline]) ls)) = ls @ [[]]"
  using assms by (induction ls) (simp_all add: split_on_append_sep)

lemma split_on_fields3:
  assumes "comma \<notin> set a" "comma \<notin> set b" "comma \<notin> set c"
  shows "split_on comma (a @ comma # b @ comma # c) = [a, b, c]"
  using assms by (simp add: split_on_append_sep split_on_no_sep)

lemma csv_table_to_csv:
  "csv_table (to_csv \<lparr>columns = [''X'', ''Y'', ''Z''], rows = ps\<rparr>)
     = [''X'', ''Y'', ''Z''] # map (\<lambda>(i, j, k). [str_nat i, str_nat j, str_nat k]) ps"
proof -
  let ?txt = "\<lambda>(i, j, k). str_nat i @ comma # str_nat j @ comma # str_nat k"
  let ?ls = "''X,Y,Z'' # map ?txt ps"
  have text_eq: "to_csv \<lparr>columns = [''X'', ''Y'', ''Z''], rows = ps\<rparr>
                   = concat (map (\<lambda>l. l @ [newline]) ?ls)"
    by (simp add: to_csv_def comma_def split_def comp_def)
  have no_nl: "\<forall>l \<in> set ?ls. newline \<notin> set l"
    using newline_notin_str_nat by (auto simp: newline_def comma_def)
  have "butlast (split_on newline (to_csv \<lparr>columns = [''X'', ''Y'', ''Z''], rows = ps\<rparr>)) = ?ls"
    unfolding text_eq split_on_lines [OF no_nl] by simp
  moreover have "split_on comma ''X,Y,Z'' = [''X'', ''Y'', ''Z'']"
    using split_on_fields3 [of "''X''" "''Y''" "''Z''"] by (simp add: comma_def)
  moreover have "map (split_on comma) (map ?txt ps)
                   = map (\<lambda>(i, j, k). [str_nat i, str_nat j, str_nat k]) ps"
    by (simp add: split_def split_on_fields3 comma_notin_str_nat)
  ultimately show ?thesis
    by (simp add: csv_table_def)
qed

lemma csv_table_coordinates_csv:
  "csv_table (coordinates_csv grid)
     = [''X'', ''Y'', ''Z''] #
       map (\<lambda>(i, j, k). [str_nat i, str_nat j, str_nat k]) (np_argwhere (matrix grid))"
  by (simp add: coordinates_csv_def csv_table_to_csv)

subsection \<open>Slices\<close>

lemma wf_take_axis0: "wf_ndarray2 (take_axis0 a i)"
  by (simp add: take_axis0_def wf_ndarray2_def split: prod.splits)

lemma wf_take_axis1: "wf_ndarray2 (take_axis1 a j)"
  by (simp add: take_axis1_def wf_ndarray2_def split: prod.splits)

lemma wf_take_axis2: "wf_ndarray2 (take_axis2 a k)"
  by (simp add: take_axis2_def wf_ndarray2_def split: prod.splits)

lemma offset_less:
  fixes a b m n :: nat
  assumes "a < m" and "b < n"
  shows "a * n + b < m * n"
proof -
  have "a * n + b < a * n + n" using assms(2) by simp
  also have "\<dots> = Suc a * n" by simp
  also have "\<dots> \<le> m * n" using assms(1) by (intro mult_le_mono1) simp
  finally show ?thesis .
qed

lemma product_upt_nth:
  assumes "a < m" and "b < n"
  shows "List.product [0..<m] [0..<n] ! (a * n + b) = (a, b)"
proof -
  have "a * n + b < length [0..<m] * length [0..<n]"
    using offset_less [OF assms] by simp
  then have "List.product [0..<m] [0..<n] ! (a * n + b)
               = ([0..<m] ! ((a * n + b) div length [0..<n]), [0..<n] ! ((a * n + b) mod length [0..<n]))"
    by (rule product_nth)
  then show ?thesis using assms by simp
qed

lemma map_product_upt_nth:
  assumes "a < m" and "b < n"
  shows "map f (List.product [0..<m] [0..<n]) ! (a * n + b) = f (a, b)"
proof -
  have "a * n + b < length (List.product [0..<m] [0..<n])"
    using offset_less [OF assms] by simp
  then show ?thesis
    by (simp add: product_upt_nth [OF assms])
qed

lemma take_axis0_cell:
  assumes "shape a = (nx, ny, nz)" and "j < ny" and "k < nz"
  shows "cell2 (take_axis0 a i) (j, k) = cell3 a (i, j, k)"
  by (simp add: take_axis0_def cell2_def assms(1) map_product_upt_nth [OF assms(2,3)])

lemma take_axis1_cell:
  assumes "shape a = (nx, ny, nz)" and "i < nx" and "k < nz"
  shows "cell2 (take_axis1 a j) (i, k) = cell3 a (i, j, k)"
  by (simp add: take_axis1_def cell2_def assms(1) map_product_upt_nth [OF assms(2,3)])

lemma take_axis2_cell:
  assumes "shape a = (nx, ny, nz)" and "i < nx" and "j < ny"
  shows "cell2 (take_axis2 a k) (i, j) = cell3 a (i, j, k)"
  by (simp add: take_axis2_def cell2_def assms(1) map_product_upt_nth [OF assms(2,3)])

lemma axis_number_cases:
  assumes "axis_number slice_axis = Some n"
  shows "slice_axis = ''x'' \<and> n = 0 \<or> slice_axis = ''y'' \<and> n = 1 \<or> slice_axis = ''z'' \<and> n = 2"
  using assms by (simp add: axis_number_def split: if_splits)

lemma np_index_in_range:
  assumes "- int n \<le> i" and "i < int n"
  shows "np_index n i = Inr (nat (if i < 0 then i + int n else i))"
  using assms by (simp add: np_index_def)

lemma slice_of_in_range:
  assumes "shape vol = sh"
    and "axis_number slice_axis = Some a"
    and "- int (shape_at sh a) \<le> i" and "i < int (shape_at sh a)"
  shows "slice_of vol slice_axis i
           = Inr (a, nat (if i < 0 then i + int (shape_at sh a) else i),
                  if a = 0 then (''X'', ''Y Coordinate'', ''Z Coordinate'')
                  else if a = 1 then (''Y'', ''X Coordinate'', ''Z Coordinate'')
                  else (''Z'', ''X Coordinate'', ''Y Coordinate''))"
proof -
  obtain nx ny nz where sh: "sh = (nx, ny, nz)"
    by (metis prod_cases3)
  consider (x) "slice_axis = ''x''" "a = 0" | (y) "slice_axis = ''y''" "a = 1"
    | (z) "slice_axis = ''z''" "a = 2"
    using axis_number_cases [OF assms(2)] by blast
  then show ?thesis
  proof cases
    case x
    with assms sh show ?thesis
      using np_index_in_range [of nx i] by (simp add: slice_of_def)
  next
    case y
    with assms sh show ?thesis
      using np_index_in_range [of ny i] by (simp add: slice_of_def)
  next
    case z
    with assms sh show ?thesis
      using np_index_in_range [of nz i] by (simp add: slice_of_def)
  qed
qed

lemma wf_take_axis: "wf_ndarray2 (take_axis a vol n)"
  by (simp add: take_axis_def wf_take_axis0 wf_take_axis1 wf_take_axis2)

lemma shape2_take_axis:
  "shape vol = (nx, ny, nz) \<Longrightarrow>
   shape2 (take_axis a vol n) = (if a = 0 then (ny, nz) else if a = 1 then (nx, nz) else (nx, ny))"
  by (simp add: take_axis_def take_axis0_def take_axis1_def take_axis2_def)

lemma select_slice_data:
  "select_slice vol slice_axis slice_index = Inr sel \<Longrightarrow>
   slice_data sel = take_axis (sel_axis sel) vol (sel_position sel)"
  by (auto simp: select_slice_def split: sum.splits)

text \<open>Every cell of a well-formed array is found through its index triple.\<close>

lemma map_cell3_ndindex:
  assumes "wf_ndarray3 vol"
  shows "map (cell3 vol) (ndindex (shape vol)) = cells vol"
proof -
  have "map (cell3 vol) (ndindex (shape vol))
          = map (nth (cells vol)) (map (offset3 (shape vol)) (ndindex (shape vol)))"
    by (simp add: cell3_def [abs_def] comp_def)
  also have "\<dots> = map (nth (cells vol)) [0..<length (cells vol)]"
    using assms by (simp add: map_offset3_ndindex wf_ndarray3_def)
  also have "\<dots> = cells vol"
    by (rule map_nth)
  finally show ?thesis .
qed

text \<open>Writing back the slice that was read leaves the volume as it was.\<close>

lemma put_take_axis:
  assumes "wf_ndarray3 vol"
  shows "put_axis a vol n (take_axis a vol n) = vol"
proof -
  obtain nx ny nz where sh: "shape vol = (nx, ny, nz)"
    by (metis prod_cases3)
  have "map (\<lambda>(i, j, k).
              if a = 0 then (if i = n then cell2 (take_axis a vol n) (j, k) else cell3 vol (i, j, k))
              else if a = 1 then (if j = n then cell2 (take_axis a vol n) (i, k) else cell3 vol (i, j, k))
              else (if k = n then cell2 (take_axis a vol n) (i, j) else cell3 vol (i, j, k)))
           (ndindex (shape vol))
          = map (cell3 vol) (ndindex (shape vol))"
  proof (rule map_cong [OF refl])
    fix p assume "p \<in> set (ndindex (shape vol))"
    then obtain i j k where p: "p = (i, j, k)" and r: "i < nx" "j < ny" "k < nz"
      by (auto simp: sh)
    show "(case p of (i, j, k) \<Rightarrow>
              if a = 0 then (if i = n then cell2 (take_axis a vol n) (j, k) else cell3 vol (i, j, k))
              else if a = 1 then (if j = n then cell2 (take_axis a vol n) (i, k) else cell3 vol (i, j, k))
              else (if k = n then cell2 (take_axis a vol n) (i, j) else cell3 vol (i, j, k)))
            = cell3 vol p"
      using r take_axis0_cell [OF sh r(2,3), of n] take_axis1_cell [OF sh r(1,3), of n]
        take_axis2_cell [OF sh r(1,2), of n]
      by (auto simp: p take_axis_def)
  qed
  then show ?thesis
    by (simp add: put_axis_def map_cell3_ndindex [OF assms])
qed

subsection \<open>What the calls leave behind\<close>

lemma load_stl_body_ui: "ui (snd (load_stl_body L uploaded w)) = ui w"
  by (simp add: load_stl_body_def Let_def split: sum.splits)

lemma create_voxel_visualization_leaves:
  "fst (snd (create_voxel_visualization L grid colormap color_by marker_size opacity w))
     = grid\<lparr>matrix := argwhere_leaves L (matrix grid)\<rparr>"
  by (simp add: create_voxel_visualization_def Let_def split: option.splits)

lemma create_slice_visualization_leaves:
  "snd (create_slice_visualization L grid slice_axis slice_index colormap)
     = (case select_slice (matrix grid) slice_axis slice_index of
          Inl e \<Rightarrow> grid
        | Inr sel \<Rightarrow>
            grid\<lparr>matrix := put_axis (sel_axis sel) (matrix grid) (sel_position sel)
                               (imshow_leaves L (slice_data sel))\<rparr>)"
  by (simp add: create_slice_visualization_def Let_def split: sum.splits option.splits)

lemma create_slice_visualization_unchanged:
  assumes "wf_ndarray3 (matrix grid)" and "\<forall>s. imshow_leaves L s = s"
  shows "snd (create_slice_visualization L grid slice_axis slice_index colormap) = grid"
proof (cases "select_slice (matrix grid) slice_axis slice_index")
  case (Inl e)
  then show ?thesis by (simp add: create_slice_visualization_leaves)
next
  case (Inr sel)
  have "put_axis (sel_axis sel) (matrix grid) (sel_position sel)
          (imshow_leaves L (slice_data sel)) = matrix grid"
    using assms(2) select_slice_data [OF Inr] put_take_axis [OF assms(1)] by simp
  with Inr show ?thesis by (simp add: create_slice_visualization_leaves)
qed

subsection \<open>The small instance\<close>

lemma np_argwhere_example: "np_argwhere example_matrix = [(0, 0, 0), (0, 1, 1)]"
  by (simp add: np_argwhere_def example_matrix_def cell3_def upt_rec [of _ "Suc _"] upt_rec [of _ "numeral _"])

lemma str_nat_digits: "str_nat 0 = ''0''" "str_nat 1 = ''1''" "str_nat (Suc 0) = ''1''"
  by (simp_all add: str_nat.simps digit_char_def)

lemma stl_texts_differ:
  "words_stl \<noteq> tetrahedron_stl" "words_stl \<noteq> point_stl" "point_stl \<noteq> tetrahedron_stl"
  "''junk'' \<noteq> tetrahedron_stl" "''junk'' \<noteq> point_stl" "''junk'' \<noteq> words_stl"
  by (simp_all add: words_stl_def tetrahedron_stl_def point_stl_def stl_text_def stl_facet_def)

lemma example_voxelize_50:
  "voxelize_mesh example_libs example_mesh 50 w
     = (Some (example_grid\<lparr>stored_pitch := Some (Fin (3602879701896397 / 18014398509481984))\<rparr>), w)"
  by (simp add: voxelize_mesh_def voxelize_body_def mesh_pitch_def example_mesh_def
        max_dimension_example pitch_50 example_libs_def del: max_dimension.simps)

lemma example_select_z1:
  "select_slice example_matrix ''z'' (Some 1)
     = Inr \<lparr>sel_index = 1, sel_axis = 2, sel_position = 1,
            slice_data = \<lparr>shape2 = (1, 2), cells2 = [False, True]\<rparr>,
            sel_title = ''Z-slice at index 1'', sel_labels = (''X Coordinate'', ''Y Coordinate'')\<rparr>"
  by (simp add: select_slice_def default_slice_index_def slice_of_def example_matrix_def
        np_index_def take_axis_def take_axis2_def cell3_def str_int_def str_nat.simps
        digit_char_def upt_rec [of _ "Suc _"] upt_rec [of _ "numeral _"])

lemma example_take_y1:
  "take_axis (Suc 0) example_matrix (Suc 0) = \<lparr>shape2 = (1, 2), cells2 = [False, True]\<rparr>"
  by (simp add: take_axis_def take_axis1_def example_matrix_def cell3_def
        upt_rec [of _ "Suc _"] upt_rec [of _ "numeral _"])

lemma example_scatter3d_accepts:
  "scatter3d_error example_libs 4 ''Viridis'' (4 / 5) = None"
  by (simp add: example_libs_def example_scatter3d_error_def example_colorscales_def)

lemma example_imshow_accepts:
  "imshow_error example_libs ''Viridis'' = None"
  by (simp add: example_libs_def example_imshow_error_def example_colorscales_def)

lemma example_grid_csv:
  "coordinates_csv (example_grid\<lparr>stored_pitch := p\<rparr>)
     = ''X,Y,Z'' @ [newline] @ ''0,0,0'' @ [newline] @ ''0,1,1'' @ [newline]"
  by (simp add: coordinates_csv_def example_grid_def np_argwhere_example to_csv_def
        str_nat_digits comma_def)

lemma example_panel_lines:
  "\<exists>w1. display_mesh_info example_mesh (example_grid\<lparr>stored_pitch := Some p\<rparr>) w = (Inr (), w1)
        \<and> length (ui w1) = length (ui w) + 13 \<and> files w1 = files w \<and> rng w1 = rng w"
  by (simp add: display_mesh_info_def example_mesh_def st_emit_all_def st_emit_def
        pitch_line_def Let_def)

section \<open>The claims\<close>

subsection \<open>Pitch\<close>

text \<open>
  Dividing the largest extent by the pitch does not always give back the resolution.
  For a mesh whose bounding box has no extent the pitch is \<open>0.0\<close> and the quotient \<^verbatim>\<open>nan\<close>.
  For the tetrahedron, whose largest extent is \<open>10.0\<close>, and the resolution 29 the pitch is
  the float64 nearest to \<open>10 / 29\<close>, and \<open>10.0\<close> divided by it is \<open>29 - 2\<^sup>-\<^sup>4\<^sup>8\<close>, which prints
  as \<open>28.999999999999996\<close>.  For the smallest positive extent, \<open>2\<^sup>-\<^sup>1\<^sup>0\<^sup>7\<^sup>4\<close>, the pitch rounds to
  \<open>0.0\<close> and the quotient is \<^verbatim>\<open>inf\<close>.
\<close>

theorem pitch_quotient_counterexample:
  "bounds flat_mesh = Some ((1, 1, 1), (1, 1, 1))
   \<and> max_dimension ((1, 1, 1), (1, 1, 1)) = Fin 0
   \<and> float64_divide (Fin 0) 10 = Fin 0
   \<and> float64_divide (Fin 0) 0 = NaN
   \<and> bounds example_mesh = Some ((0, 0, 0), (4, 10, 2))
   \<and> max_dimension ((0, 0, 0), (4, 10, 2)) = Fin 10
   \<and> voxelize_mesh example_libs example_mesh 29 example_world
       = (Some (example_grid\<lparr>stored_pitch :=
                   Some (Fin (1552965388748447 / 4503599627370496))\<rparr>), example_world)
   \<and> float64_divide (Fin 10) (1552965388748447 / 4503599627370496)
       = Fin (8162774324609023 / 281474976710656)
   \<and> (8162774324609023 / 281474976710656 :: real) < 29
   \<and> float64_divide (Fin (2 powi (- 1074))) 10 = Fin 0
   \<and> float64_divide (Fin (2 powi (- 1074))) 0 = PosInf"
proof -
  have v: "voxelize_mesh example_libs example_mesh 29 example_world
       = (Some (example_grid\<lparr>stored_pitch :=
                   Some (Fin (1552965388748447 / 4503599627370496))\<rparr>), example_world)"
    by (simp add: voxelize_mesh_def voxelize_body_def mesh_pitch_def example_mesh_def
          max_dimension_example pitch_29 example_libs_def del: max_dimension.simps)
  have z: "float64_divide (Fin 0) 10 = Fin 0" "float64_divide (Fin 0) 0 = NaN"
    "float64_divide (Fin (2 powi (- 1074))) 0 = PosInf"
    by (simp_all add: float64_divide_def np_true_divide_def float64_round_def)
  show ?thesis
    using v z float64_divide_underflow back_29 max_dimension_example max_dimension_flat
    by (simp add: flat_mesh_def example_mesh_def del: max_dimension.simps)
qed

text \<open>
  Claim C1, with the quotient up to rounding.  For a mesh with bounds, the pitch of
  \<open>voxelize_mesh\<close> is the float64 quotient of the largest extent by the resolution:
  whenever the library returns a grid for it, \<open>voxelize_mesh\<close> returns that grid with this
  pitch stored as \<^verbatim>\<open>_pitch\<close>, and every grid it returns carries it.  For a resolution from
  10 to 200 and a finite largest extent of at least \<open>2\<^sup>-\<^sup>1\<^sup>0\<^sup>1\<^sup>4\<close>, the pitch is a positive number
  within the relative error \<open>2\<^sup>-\<^sup>5\<^sup>3\<close> of the exact quotient, and the float64 quotient of the
  largest extent by the pitch is within the relative error \<open>2\<^sup>-\<^sup>5\<^sup>1\<close> of the resolution.
\<close>

theorem voxelize_mesh_pitch:
  assumes "bounds mesh_obj = Some b"
  shows "(\<forall>grid. voxelized L mesh_obj (float64_divide (max_dimension b) (of_int resolution))
                   = Inr grid \<longrightarrow>
            voxelize_mesh L mesh_obj resolution w
              = (Some (grid\<lparr>stored_pitch :=
                         Some (float64_divide (max_dimension b) (of_int resolution))\<rparr>), w))
       \<and> (\<forall>grid w'. voxelize_mesh L mesh_obj resolution w = (Some grid, w') \<longrightarrow>
            stored_pitch grid = Some (float64_divide (max_dimension b) (of_int resolution)))
       \<and> (\<forall>m. 10 \<le> resolution \<and> resolution \<le> 200 \<and> max_dimension b = Fin m
              \<and> 2 powi (- 1014) \<le> m \<longrightarrow>
            (\<exists>p q. float64_divide (max_dimension b) (of_int resolution) = Fin p \<and> 0 < p
                 \<and> \<bar>p - m / of_int resolution\<bar> \<le> (m / of_int resolution) / 2 ^ 53
                 \<and> float64_divide (Fin m) p = Fin q
                 \<and> \<bar>q - of_int resolution\<bar> \<le> of_int resolution / 2 ^ 51))"
proof -
  let ?pitch = "float64_divide (max_dimension b) (of_int resolution)"
  have ok: "voxelize_mesh L mesh_obj resolution w
              = (Some (grid\<lparr>stored_pitch := Some ?pitch\<rparr>), w)"
    if "voxelized L mesh_obj ?pitch = Inr grid" for grid
    using that assms by (simp add: voxelize_mesh_def voxelize_body_def mesh_pitch_def)
  have stored: "stored_pitch grid = Some ?pitch"
    if "voxelize_mesh L mesh_obj resolution w = (Some grid, w')" for grid w'
    using that assms
    by (auto simp: voxelize_mesh_def voxelize_body_def mesh_pitch_def Let_def split: sum.splits)
  have near: "\<exists>p q. ?pitch = Fin p \<and> 0 < p
                 \<and> \<bar>p - m / of_int resolution\<bar> \<le> (m / of_int resolution) / 2 ^ 53
                 \<and> float64_divide (Fin m) p = Fin q
                 \<and> \<bar>q - of_int resolution\<bar> \<le> of_int resolution / 2 ^ 51"
    if res: "10 \<le> resolution" "resolution \<le> 200" and md: "max_dimension b = Fin m"
      and lo: "2 powi (- 1014) \<le> m" for m
  proof -
    define r :: real where "r = of_int resolution"
    have r: "10 \<le> r" "r \<le> 200" using res by (simp_all add: r_def)
    have mpos: "0 < m"
      using lo zero_less_power_int [of "2::real" "- 1014"] by linarith
    define t where "t = m / r"
    have tpos: "0 < t" using mpos r by (simp add: t_def)
    have "2 powi (- 1022) * 256 \<le> (2::real) powi (- 1014)"
    proof -
      have "(2::real) powi (- 1022) * 256 = 2 powi (- 1022) * 2 powi 8" by simp
      also have "\<dots> = 2 powi (- 1014)" by (simp flip: power_int_add)
      finally show ?thesis by simp
    qed
    moreover have "2 powi (- 1022) * r \<le> 2 powi (- 1022) * 256"
      using r by (intro mult_left_mono) simp_all
    ultimately have "2 powi (- 1022) * r \<le> m" using lo by linarith
    then have tlo: "2 powi (- 1022) \<le> t"
      using r by (simp add: t_def field_simps)
    have "m < 2 powi 1024"
      using max_dimension_finite [OF md] by simp
    also have "\<dots> = 4 * 2 powi 1022"
      using power_int_add [of "2::real" 2 1022] by simp
    finally have "m / 4 \<le> 2 powi 1022" by simp
    moreover have "t \<le> m / 4"
      unfolding t_def using mpos r by (intro divide_left_mono) simp_all
    ultimately have thi: "t \<le> 2 powi 1022" by linarith
    from float64_round_positive [OF tlo thi] obtain p
      where p: "float64_round t = Fin p" "\<bar>p - t\<bar> \<le> t / 2 ^ 53" "0 < p" by blast
    have pitch: "?pitch = Fin p"
      using p(1) r by (simp add: md float64_divide_def np_true_divide_def r_def t_def)
    have "t / 2 ^ 53 \<le> t / 2" using tpos by (simp add: field_simps)
    with p(2) have pb: "t / 2 \<le> p" "p \<le> 2 * t" by linarith+
    have mt: "m = t * r" using r by (simp add: t_def)
    have "m / p \<le> m / (t / 2)"
      using pb(1) tpos mpos by (intro divide_left_mono) simp_all
    also have "\<dots> = 2 * r" using tpos by (simp add: mt)
    also have "\<dots> \<le> 2 powi 9" using r by simp
    also have "\<dots> \<le> 2 powi 1022" by (rule two_powi_mono) simp
    finally have shi: "m / p \<le> 2 powi 1022" .
    have "(2::real) powi (- 1022) \<le> 2 powi 0" by (rule two_powi_mono) simp
    also have "\<dots> \<le> r / 2" using r by simp
    also have "\<dots> = m / (2 * t)" using tpos by (simp add: mt)
    also have "\<dots> \<le> m / p"
      using pb(2) p(3) mpos by (intro divide_left_mono) simp_all
    finally have slo: "2 powi (- 1022) \<le> m / p" .
    from float64_round_normal [OF slo shi] obtain q
      where q: "float64_round (m / p) = Fin q" "\<bar>q - m / p\<bar> \<le> (m / p) / 2 ^ 53" by blast
    have quot: "float64_divide (Fin m) p = Fin q"
      using q(1) p(3) by (simp add: float64_divide_def np_true_divide_def)
    have "\<bar>q - r\<bar> \<le> r / 2 ^ 51"
      using quotient_near [of m r p q] mpos r p(2) q(2) by (simp add: t_def)
    with pitch p quot show ?thesis
      unfolding r_def t_def by blast
  qed
  from ok stored near show ?thesis by blast
qed

theorem voxelize_mesh_pitch_witness:
  "voxelize_mesh example_libs example_mesh 50 example_world
     = (Some (example_grid\<lparr>stored_pitch :=
                 Some (Fin (3602879701896397 / 18014398509481984))\<rparr>), example_world)
   \<and> (\<exists>p q. float64_divide (Fin 10) 50 = Fin p \<and> 0 < p
          \<and> \<bar>p - 10 / 50\<bar> \<le> (10 / 50) / 2 ^ 53
          \<and> float64_divide (Fin 10) p = Fin q \<and> \<bar>q - 50\<bar> \<le> 50 / 2 ^ 51)"
proof -
  have b: "bounds example_mesh = Some ((0, 0, 0), (4, 10, 2))"
    by (simp add: example_mesh_def)
  note t = voxelize_mesh_pitch [OF b, of example_libs 50 example_world]
  have v: "voxelized example_libs example_mesh
             (float64_divide (max_dimension ((0, 0, 0), (4, 10, 2))) (of_int 50))
           = Inr example_grid"
    by (simp add: max_dimension_example pitch_50 example_libs_def del: max_dimension.simps)
  have lo: "(2::real) powi (- 1014) \<le> 10"
    using two_powi_mono [of "- 1014" 0] by simp
  have first: "voxelize_mesh example_libs example_mesh 50 example_world
     = (Some (example_grid\<lparr>stored_pitch :=
                 Some (Fin (3602879701896397 / 18014398509481984))\<rparr>), example_world)"
    using t v by (simp add: max_dimension_example pitch_50 del: max_dimension.simps)
  have second: "\<exists>p q. float64_divide (Fin 10) 50 = Fin p \<and> 0 < p
          \<and> \<bar>p - 10 / 50\<bar> \<le> (10 / 50) / 2 ^ 53
          \<and> float64_divide (Fin 10) p = Fin q \<and> \<bar>q - 50\<bar> \<le> 50 / 2 ^ 51"
    using t lo max_dimension_example by (simp del: max_dimension.simps)
  from first second show ?thesis by blast
qed

subsection \<open>The temporary file\<close>

text \<open>
  When the load succeeds the temporary file is unlinked: with a fresh name, the files
  are as before the call.
\<close>

lemma successful_load_removes_temp_file:
  assumes "tmp_name L (files w) \<notin> dom (files w)"
    and "load_mesh L ((files w)(tmp_name L (files w) \<mapsto> getvalue uploaded))
           (tmp_name L (files w)) = Inr mesh_obj"
  shows "load_stl_file L uploaded w = (Some mesh_obj, w)"
proof -
  have "(files w)(tmp_name L (files w) := None) = files w"
    using assms(1) by (auto simp: fun_eq_iff)
  then show ?thesis
    using assms(2) by (simp add: load_stl_file_def load_stl_body_def)
qed

text \<open>
  Claim C2 fails on every upload on which \<^verbatim>\<open>trimesh.load_mesh\<close> raises: \<open>load_stl_file\<close>
  returns \<^verbatim>\<open>None\<close>, and the files after the call are the files before it and the
  temporary file, which holds the uploaded bytes.
\<close>

theorem failed_load_keeps_temp_file:
  assumes "load_mesh L ((files w)(tmp_name L (files w) \<mapsto> getvalue uploaded))
             (tmp_name L (files w)) = Inl e"
  shows "fst (load_stl_file L uploaded w) = None
       \<and> files (snd (load_stl_file L uploaded w))
           = (files w)(tmp_name L (files w) \<mapsto> getvalue uploaded)
       \<and> files (snd (load_stl_file L uploaded w)) (tmp_name L (files w))
           = Some (getvalue uploaded)"
  using assms by (simp add: load_stl_file_def load_stl_body_def st_emit_def)

theorem failed_load_keeps_temp_file_witness:
  "files example_world ''/tmp/tmp0.stl'' = None
   \<and> fst (load_stl_file example_libs bad_upload example_world) = None
   \<and> files (snd (load_stl_file example_libs bad_upload example_world)) ''/tmp/tmp0.stl''
       = Some words_stl"
proof -
  have l: "load_mesh example_libs
             ((files example_world)(tmp_name example_libs (files example_world)
                \<mapsto> getvalue bad_upload))
             (tmp_name example_libs (files example_world))
           = Inl (ValueError (''could not convert string to float: 'a'' @ [CHR 0x27]))"
    by (simp add: example_libs_def example_load_mesh_def bad_upload_def stl_texts_differ)
  from failed_load_keeps_temp_file [OF l] show ?thesis
    by (simp add: example_libs_def bad_upload_def example_world_def)
qed

subsection \<open>Slice shape\<close>

text \<open>
  Claim C3: for a grid of shape \<open>(nx, ny, nz)\<close>, an axis name \<open>x\<close>, \<open>y\<close> or \<open>z\<close> and an index
  in range on that axis (negative indices of numpy included), the slice
  \<open>create_slice_visualization\<close> takes is the one at the position of that index on that axis:
  a well-formed 2D array of the shape with that axis removed, \<open>(ny, nz)\<close>, \<open>(nx, nz)\<close> or
  \<open>(nx, ny)\<close>, whose cells are the cells of the grid at that position.  The title names the
  axis and the index.  When plotly accepts the colour scale, the figure returned shows
  this slice under this title; when it refuses, its exception is what the call raises.
  With no index, the slice taken and the whole call are those of the mid-index, the size
  of the axis halved and rounded down.
\<close>

theorem slice_shape:
  assumes "shape (matrix grid) = (nx, ny, nz)"
    and "axis_number slice_axis = Some a"
    and "- int (shape_at (nx, ny, nz) a) \<le> i" and "i < int (shape_at (nx, ny, nz) a)"
  shows "(\<exists>sel. select_slice (matrix grid) slice_axis (Some i) = Inr sel
            \<and> sel_index sel = i \<and> sel_axis sel = a
            \<and> sel_position sel = nat (if i < 0 then i + int (shape_at (nx, ny, nz) a) else i)
            \<and> slice_data sel = take_axis a (matrix grid) (sel_position sel)
            \<and> wf_ndarray2 (slice_data sel)
            \<and> shape2 (slice_data sel)
                = (if slice_axis = ''x'' then (ny, nz)
                   else if slice_axis = ''y'' then (nx, nz) else (nx, ny))
            \<and> (\<forall>p q. p < fst (shape2 (slice_data sel)) \<and> q < snd (shape2 (slice_data sel)) \<longrightarrow>
                  cell2 (slice_data sel) (p, q)
                    = cell3 (matrix grid)
                        (if slice_axis = ''x'' then (sel_position sel, p, q)
                         else if slice_axis = ''y'' then (p, sel_position sel, q)
                         else (p, q, sel_position sel)))
            \<and> sel_title sel
                = (if slice_axis = ''x'' then ''X'' else if slice_axis = ''y'' then ''Y'' else ''Z'')
                  @ ''-slice at index '' @ str_int i
            \<and> (imshow_error L colormap = None \<longrightarrow>
                  (\<exists>fig. fst (create_slice_visualization L grid slice_axis (Some i) colormap)
                           = Inr fig
                       \<and> img fig = slice_data sel \<and> heatmap_title fig = sel_title sel
                       \<and> color_continuous_scale fig = colormap))
            \<and> (\<forall>e. imshow_error L colormap = Some e \<longrightarrow>
                  fst (create_slice_visualization L grid slice_axis (Some i) colormap) = Inl e))
       \<and> select_slice (matrix grid) slice_axis None
           = select_slice (matrix grid) slice_axis (Some (int (shape_at (nx, ny, nz) a div 2)))
       \<and> create_slice_visualization L grid slice_axis None colormap
           = create_slice_visualization L grid slice_axis
               (Some (int (shape_at (nx, ny, nz) a div 2))) colormap"
proof -
  let ?vol = "matrix grid"
  let ?n = "nat (if i < 0 then i + int (shape_at (nx, ny, nz) a) else i)"
  have ax: "(slice_axis = ''x'') = (a = 0)" "(slice_axis = ''y'') = (a = 1)"
    using axis_number_cases [OF assms(2)] by auto
  define sel where "sel = \<lparr>sel_index = i, sel_axis = a, sel_position = ?n,
      slice_data = take_axis a ?vol ?n,
      sel_title = (if a = 0 then ''X'' else if a = 1 then ''Y'' else ''Z'')
                  @ ''-slice at index '' @ str_int i,
      sel_labels = (if a = 0 then (''Y Coordinate'', ''Z Coordinate'')
                    else if a = 1 then (''X Coordinate'', ''Z Coordinate'')
                    else (''X Coordinate'', ''Y Coordinate''))\<rparr>"
  have s: "select_slice ?vol slice_axis (Some i) = Inr sel"
    using slice_of_in_range [OF assms(1) assms(2) assms(3) assms(4)]
    by (simp add: select_slice_def default_slice_index_def sel_def)
  have sh: "shape2 (slice_data sel)
              = (if a = 0 then (ny, nz) else if a = 1 then (nx, nz) else (nx, ny))"
    by (simp add: sel_def shape2_take_axis [OF assms(1)])
  have cells: "cell2 (slice_data sel) (p, q)
                 = cell3 ?vol (if a = 0 then (sel_position sel, p, q)
                               else if a = 1 then (p, sel_position sel, q)
                               else (p, q, sel_position sel))"
    if "p < fst (shape2 (slice_data sel))" and "q < snd (shape2 (slice_data sel))" for p q
    using that unfolding sh
    by (auto simp: sel_def take_axis_def take_axis0_cell [OF assms(1)]
          take_axis1_cell [OF assms(1)] take_axis2_cell [OF assms(1)] split: if_splits)
  have ok: "\<exists>fig. fst (create_slice_visualization L grid slice_axis (Some i) colormap) = Inr fig
              \<and> img fig = slice_data sel \<and> heatmap_title fig = sel_title sel
              \<and> color_continuous_scale fig = colormap"
    if "imshow_error L colormap = None"
    using that s by (simp add: create_slice_visualization_def Let_def)
  have bad: "fst (create_slice_visualization L grid slice_axis (Some i) colormap) = Inl e"
    if "imshow_error L colormap = Some e" for e
    using that s by (simp add: create_slice_visualization_def Let_def)
  have mid: "default_slice_index ?vol slice_axis None
               = default_slice_index ?vol slice_axis
                   (Some (int (shape_at (nx, ny, nz) a div 2)))"
    using assms(1,2) by (simp add: default_slice_index_def)
  then have m1: "select_slice ?vol slice_axis None
           = select_slice ?vol slice_axis (Some (int (shape_at (nx, ny, nz) a div 2)))"
    by (simp add: select_slice_def)
  then have m2: "create_slice_visualization L grid slice_axis None colormap
           = create_slice_visualization L grid slice_axis
               (Some (int (shape_at (nx, ny, nz) a div 2))) colormap"
    by (simp add: create_slice_visualization_def)
  have first: "\<exists>sel. select_slice (matrix grid) slice_axis (Some i) = Inr sel
            \<and> sel_index sel = i \<and> sel_axis sel = a
            \<and> sel_position sel = nat (if i < 0 then i + int (shape_at (nx, ny, nz) a) else i)
            \<and> slice_data sel = take_axis a (matrix grid) (sel_position sel)
            \<and> wf_ndarray2 (slice_data sel)
            \<and> shape2 (slice_data sel)
                = (if slice_axis = ''x'' then (ny, nz)
                   else if slice_axis = ''y'' then (nx, nz) else (nx, ny))
            \<and> (\<forall>p q. p < fst (shape2 (slice_data sel)) \<and> q < snd (shape2 (slice_data sel)) \<longrightarrow>
                  cell2 (slice_data sel) (p, q)
                    = cell3 (matrix grid)
                        (if slice_axis = ''x'' then (sel_position sel, p, q)
                         else if slice_axis = ''y'' then (p, sel_position sel, q)
                         else (p, q, sel_position sel)))
            \<and> sel_title sel
                = (if slice_axis = ''x'' then ''X'' else if slice_axis = ''y'' then ''Y'' else ''Z'')
                  @ ''-slice at index '' @ str_int i
            \<and> (imshow_error L colormap = None \<longrightarrow>
                  (\<exists>fig. fst (create_slice_visualization L grid slice_axis (Some i) colormap)
                           = Inr fig
                       \<and> img fig = slice_data sel \<and> heatmap_title fig = sel_title sel
                       \<and> color_continuous_scale fig = colormap))
            \<and> (\<forall>e. imshow_error L colormap = Some e \<longrightarrow>
                  fst (create_slice_visualization L grid slice_axis (Some i) colormap) = Inl e)"
  proof (intro exI [of _ sel] conjI)
    show "select_slice (matrix grid) slice_axis (Some i) = Inr sel" by (rule s)
    show "sel_index sel = i" "sel_axis sel = a"
      "sel_position sel = nat (if i < 0 then i + int (shape_at (nx, ny, nz) a) else i)"
      "slice_data sel = take_axis a (matrix grid) (sel_position sel)"
      by (simp_all add: sel_def)
    show "wf_ndarray2 (slice_data sel)" by (simp add: sel_def wf_take_axis)
    show "shape2 (slice_data sel)
                = (if slice_axis = ''x'' then (ny, nz)
                   else if slice_axis = ''y'' then (nx, nz) else (nx, ny))"
      unfolding ax by (rule sh)
    show "\<forall>p q. p < fst (shape2 (slice_data sel)) \<and> q < snd (shape2 (slice_data sel)) \<longrightarrow>
                  cell2 (slice_data sel) (p, q)
                    = cell3 (matrix grid)
                        (if slice_axis = ''x'' then (sel_position sel, p, q)
                         else if slice_axis = ''y'' then (p, sel_position sel, q)
                         else (p, q, sel_position sel))"
      unfolding ax using cells by blast
    show "sel_title sel
                = (if slice_axis = ''x'' then ''X'' else if slice_axis = ''y'' then ''Y'' else ''Z'')
                  @ ''-slice at index '' @ str_int i"
      unfolding ax by (simp add: sel_def)
    show "imshow_error L colormap = None \<longrightarrow>
                  (\<exists>fig. fst (create_slice_visualization L grid slice_axis (Some i) colormap)
                           = Inr fig
                       \<and> img fig = slice_data sel \<and> heatmap_title fig = sel_title sel
                       \<and> color_continuous_scale fig = colormap)"
      using ok by blast
    show "\<forall>e. imshow_error L colormap = Some e \<longrightarrow>
                  fst (create_slice_visualization L grid slice_axis (Some i) colormap) = Inl e"
      using bad by blast
  qed
  from first m1 m2 show ?thesis by blast
qed

theorem slice_shape_witness:
  "(\<exists>fig. fst (create_slice_visualization example_libs example_grid ''y'' (Some 1) ''Viridis'')
            = Inr fig
          \<and> img fig = \<lparr>shape2 = (1, 2), cells2 = [False, True]\<rparr>
          \<and> heatmap_title fig = ''Y-slice at index 1'')
   \<and> fst (create_slice_visualization example_libs example_grid ''y'' (Some 1) ''Cool'')
       = Inl (ValueError ''Invalid value for the colorscale property'')
   \<and> create_slice_visualization example_libs example_grid ''y'' None ''Viridis''
       = create_slice_visualization example_libs example_grid ''y'' (Some 1) ''Viridis''"
proof -
  have sh: "shape (matrix example_grid) = (1, 2, 2)"
    by (simp add: example_grid_def example_matrix_def)
  have m: "matrix example_grid = example_matrix"
    by (simp add: example_grid_def)
  have ax: "axis_number ''y'' = Some 1"
    by (simp add: axis_number_def)
  have lo: "- int (shape_at (1, 2, 2) 1) \<le> 1" and hi: "1 < int (shape_at (1, 2, 2) 1)"
    by simp_all
  have v: "imshow_error example_libs ''Viridis'' = None"
    by (simp add: example_libs_def example_imshow_error_def example_colorscales_def)
  have c: "imshow_error example_libs ''Cool''
             = Some (ValueError ''Invalid value for the colorscale property'')"
    by (simp add: example_libs_def example_imshow_error_def example_colorscales_def)
  have t: "str_int 1 = ''1''"
    by (simp add: str_int_def str_nat_digits)
  from slice_shape [OF sh ax lo hi, of example_libs "''Viridis''"] v
  have a: "\<exists>fig. fst (create_slice_visualization example_libs example_grid ''y'' (Some 1) ''Viridis'')
            = Inr fig
          \<and> img fig = \<lparr>shape2 = (1, 2), cells2 = [False, True]\<rparr>
          \<and> heatmap_title fig = ''Y-slice at index 1''"
    by (auto simp: m example_take_y1 t)
  from slice_shape [OF sh ax lo hi, of example_libs "''Viridis''"]
  have b: "create_slice_visualization example_libs example_grid ''y'' None ''Viridis''
       = create_slice_visualization example_libs example_grid ''y'' (Some 1) ''Viridis''"
    by simp
  from slice_shape [OF sh ax lo hi, of example_libs "''Cool''"] c
  have d: "fst (create_slice_visualization example_libs example_grid ''y'' (Some 1) ''Cool'')
       = Inl (ValueError ''Invalid value for the colorscale property'')"
    by auto
  from a b d show ?thesis by blast
qed

subsection \<open>The exported table\<close>

text \<open>
  Claim C4: the exported text, read back line by line and field by field, is the header
  \<open>X, Y, Z\<close> followed by one line of three decimal fields per row of \<^verbatim>\<open>argwhere\<close>; the
  number of lines after the header is the number of True cells of the grid.
\<close>

theorem coordinates_csv_rows:
  assumes "wf_ndarray3 (matrix grid)"
  shows "csv_table (coordinates_csv grid)
           = [''X'', ''Y'', ''Z''] #
             map (\<lambda>(i, j, k). [str_nat i, str_nat j, str_nat k]) (np_argwhere (matrix grid))
       \<and> length (tl (csv_table (coordinates_csv grid))) = np_sum (matrix grid)"
proof -
  have n: "length (np_argwhere (matrix grid)) = np_sum (matrix grid)"
    using assms by (rule length_np_argwhere)
  show ?thesis
    using n by (simp add: csv_table_coordinates_csv)
qed

theorem coordinates_csv_rows_witness:
  "wf_ndarray3 (matrix example_grid)
   \<and> csv_table (coordinates_csv example_grid)
       = [[''X'', ''Y'', ''Z''], [''0'', ''0'', ''0''], [''0'', ''1'', ''1'']]
   \<and> np_sum (matrix example_grid) = 2"
proof -
  have wf: "wf_ndarray3 (matrix example_grid)"
    by (simp add: example_grid_def example_matrix_def wf_ndarray3_def)
  have m: "matrix example_grid = example_matrix"
    by (simp add: example_grid_def)
  have s: "np_sum example_matrix = 2"
    by (simp add: np_sum_def example_matrix_def)
  show ?thesis
    using coordinates_csv_rows [OF wf] wf s
    by (simp add: m np_argwhere_example str_nat_digits)
qed

subsection \<open>Total and fill ratio\<close>

text \<open>
  A grid with no cell at all has the fill ratio \<^verbatim>\<open>nan\<close>, which is not in \<open>[0, 1]\<close>.
\<close>

theorem empty_grid_fill_ratio_counterexample:
  "wf_ndarray3 (matrix empty_grid) \<and> total_voxels empty_grid = 0
   \<and> fill_ratio empty_grid = NaN \<and> \<not> in_unit_interval (fill_ratio empty_grid)"
  by (simp add: empty_grid_def wf_ndarray3_def total_voxels_def voxel_count_def np_sum_def
        fill_ratio_def np_true_divide_def)

text \<open>
  Claim C5, for a grid with at least one cell: the total of \<open>display_mesh_info\<close> is the
  product of the three dimensions (and the number of cells of the matrix), the voxel
  count is the number of True cells, and the fill ratio is their quotient, a number from
  0 to 1.
\<close>

theorem fill_ratio_in_unit_interval:
  assumes "wf_ndarray3 (matrix grid)" and "shape (matrix grid) = (nx, ny, nz)"
    and "0 < nx * ny * nz"
  shows "total_voxels grid = nx * ny * nz
       \<and> total_voxels grid = length (cells (matrix grid))
       \<and> voxel_count grid = length (filter (\<lambda>b. b) (cells (matrix grid)))
       \<and> fill_ratio grid = Fin (real (voxel_count grid) / real (total_voxels grid))
       \<and> in_unit_interval (fill_ratio grid)"
proof -
  have total: "total_voxels grid = nx * ny * nz"
    using assms(2) by (simp add: total_voxels_def)
  have len: "total_voxels grid = length (cells (matrix grid))"
    using assms(1) by (simp add: total_voxels_def wf_ndarray3_def)
  have le: "voxel_count grid \<le> total_voxels grid"
    using np_sum_le [OF assms(1)] by (simp add: voxel_count_def total_voxels_def)
  have pos: "0 < total_voxels grid"
    using total assms(3) by simp
  have ratio: "fill_ratio grid = Fin (real (voxel_count grid) / real (total_voxels grid))"
    using pos by (simp add: fill_ratio_def np_true_divide_def)
  have "real (voxel_count grid) / real (total_voxels grid) \<le> 1"
    using le pos by simp
  then have unit: "in_unit_interval (fill_ratio grid)"
    unfolding ratio by simp
  from total len ratio unit show ?thesis
    by (simp add: voxel_count_def np_sum_def)
qed

theorem fill_ratio_in_unit_interval_witness:
  "wf_ndarray3 (matrix example_grid) \<and> total_voxels example_grid = 4
   \<and> voxel_count example_grid = 2 \<and> fill_ratio example_grid = Fin (1 / 2)
   \<and> in_unit_interval (fill_ratio example_grid)"
proof -
  have wf: "wf_ndarray3 (matrix example_grid)"
    by (simp add: example_grid_def example_matrix_def wf_ndarray3_def)
  have sh: "shape (matrix example_grid) = (1, 2, 2)"
    by (simp add: example_grid_def example_matrix_def)
  have pos: "(0::nat) < 1 * 2 * 2" by simp
  have cnt: "length (filter (\<lambda>b. b) (cells (matrix example_grid))) = 2"
    by (simp add: example_grid_def example_matrix_def)
  show ?thesis
    using fill_ratio_in_unit_interval [OF wf sh pos] wf cnt by simp
qed

text \<open>
  The panel writes these two values when the mesh has bounds.
\<close>

lemma display_mesh_info_voxel_lines:
  assumes "bounds mesh_obj = Some b"
  shows "StWrite ''Total Voxels'' (ShowInt (int (total_voxels grid)))
           \<in> set (ui (snd (display_mesh_info mesh_obj grid w)))
       \<and> StWrite ''Fill Ratio'' (ShowFloat4 (fill_ratio grid))
           \<in> set (ui (snd (display_mesh_info mesh_obj grid w)))"
proof -
  obtain x0 y0 z0 x1 y1 z1 where "b = ((x0, y0, z0), (x1, y1, z1))"
    by (metis prod_cases3)
  with assms show ?thesis
    by (simp add: display_mesh_info_def st_emit_all_def st_emit_def Let_def split: sum.splits)
qed

subsection \<open>Random colouring\<close>

text \<open>
  Claim C6: in mode \<open>Random\<close> the colour values are the first draws of the generator
  seeded with 42, one per occupied cell, whatever state the generator was in before the
  call.  So a render of a grid has the same result from any two states, and any two
  figures returned for the same grid, whatever the other parameters, carry the same colour
  values.
\<close>

theorem random_coloring_deterministic:
  "fst (color_values_of L ''Random'' filled_positions ga)
     = (fst (random_rand L (random_seed L 42) (length filled_positions)), ''Random'')
   \<and> fst (color_values_of L ''Random'' filled_positions ga)
       = fst (color_values_of L ''Random'' filled_positions gb)
   \<and> fst (create_voxel_visualization L grid colormap ''Random'' marker_size opacity wa)
       = fst (create_voxel_visualization L grid colormap ''Random'' marker_size opacity wb)
   \<and> (\<forall>fig1 fig2.
         fst (create_voxel_visualization L grid colormap_a ''Random'' size_a opacity_a wa)
           = Inr (Some fig1)
         \<and> fst (create_voxel_visualization L grid colormap_b ''Random'' size_b opacity_b wb)
             = Inr (Some fig2)
         \<longrightarrow> fig_marker_color fig1 = fig_marker_color fig2
             \<and> fig_marker_color fig1
                 = fst (random_rand L (random_seed L 42) (length (np_argwhere (matrix grid)))))"
proof -
  have c: "fst (color_values_of L ''Random'' ps g)
             = (fst (random_rand L (random_seed L 42) (length ps)), ''Random'')" for ps g
    by (simp add: color_values_of_def Let_def)
  have s: "fst (create_voxel_visualization L grid colormap ''Random'' marker_size opacity wa)
       = fst (create_voxel_visualization L grid colormap ''Random'' marker_size opacity wb)"
    by (simp add: c create_voxel_visualization_def Let_def split: option.splits)
  have f: "fig_marker_color fig
             = fst (random_rand L (random_seed L 42) (length (np_argwhere (matrix grid))))"
    if "fst (create_voxel_visualization L grid cm ''Random'' sz op w) = Inr (Some fig)"
    for fig cm sz op and w :: "'a world"
    using that
    by (auto simp: c create_voxel_visualization_def Let_def split: if_splits option.splits)
  from c s f show ?thesis by metis
qed

theorem random_coloring_deterministic_witness:
  "\<exists>fig1 fig2.
     fst (create_voxel_visualization example_libs example_grid ''Viridis'' ''Random'' 4 (4 / 5)
            example_world) = Inr (Some fig1)
     \<and> fst (create_voxel_visualization example_libs example_grid ''Plasma'' ''Random'' 6 (1 / 2)
              (example_world\<lparr>rng := 100\<rparr>)) = Inr (Some fig2)
     \<and> fig_marker_color fig1 = fig_marker_color fig2
     \<and> fig_marker_color fig1 = [0, 1 / 7]"
proof -
  have m: "matrix example_grid = example_matrix"
    by (simp add: example_grid_def)
  have ok: "scatter3d_error example_libs 4 ''Viridis'' (4 / 5) = None"
    "scatter3d_error example_libs 6 ''Plasma'' (1 / 2) = None"
    by (simp_all add: example_libs_def example_scatter3d_error_def example_colorscales_def)
  obtain fig1 where f1: "fst (create_voxel_visualization example_libs example_grid ''Viridis''
      ''Random'' 4 (4 / 5) example_world) = Inr (Some fig1)"
    using ok by (simp add: create_voxel_visualization_def Let_def m np_argwhere_example)
  obtain fig2 where f2: "fst (create_voxel_visualization example_libs example_grid ''Plasma''
      ''Random'' 6 (1 / 2) (example_world\<lparr>rng := 100\<rparr>)) = Inr (Some fig2)"
    using ok by (simp add: create_voxel_visualization_def Let_def m np_argwhere_example)
  have r: "fst (random_rand example_libs (random_seed example_libs 42) (Suc (Suc 0)))
             = [0, 1 / 7]"
    by (simp add: example_libs_def example_rand_def upt_rec [of _ "Suc _"])
  note t = random_coloring_deterministic [where L = example_libs and grid = example_grid
         and filled_positions = "[]" and ga = 0 and gb = 0
         and colormap = "''Viridis''" and marker_size = 4 and opacity = "4 / 5"
         and wa = example_world and wb = "example_world\<lparr>rng := 100\<rparr>"
         and colormap_a = "''Viridis''" and size_a = 4 and opacity_a = "4 / 5"
         and colormap_b = "''Plasma''" and size_b = 6 and opacity_b = "1 / 2"]
  from t f1 f2 have eq: "fig_marker_color fig1 = fig_marker_color fig2"
    and val: "fig_marker_color fig1
               = fst (random_rand example_libs (random_seed example_libs 42)
                        (length (np_argwhere (matrix example_grid))))"
    by blast+
  have "fig_marker_color fig1 = [0, 1 / 7]"
    using val r by (simp add: m np_argwhere_example)
  with f1 f2 eq show ?thesis by blast
qed

subsection \<open>Failures\<close>

text \<open>
  Claim C7: when the body of \<open>load_stl_file\<close> or of \<open>voxelize_mesh\<close> raises, the function
  returns \<^verbatim>\<open>None\<close> and shows exactly one error message, made from the exception's text;
  and \<^verbatim>\<open>main\<close> then ends normally having shown, after the branding image or its warning,
  that one message and nothing else: no panel line, no chart, no download button.
\<close>

theorem failures_are_caught:
  "(load_stl_body L uploaded w = (Inl e, w1) \<longrightarrow>
      load_stl_file L uploaded w
        = (None, st_emit (StError (''Error loading STL file: '' @ str_error e)) w1)
      \<and> ui (snd (load_stl_file L uploaded w))
          = ui w @ [StError (''Error loading STL file: '' @ str_error e)])
   \<and> (voxelize_body L mesh_obj resolution = Inl e \<longrightarrow>
        voxelize_mesh L mesh_obj resolution w
          = (None, st_emit (StError (''Error voxelizing mesh: '' @ str_error e)) w)
        \<and> ui (snd (voxelize_mesh L mesh_obj resolution w))
            = ui w @ [StError (''Error voxelizing mesh: '' @ str_error e)])
   \<and> (load_stl_body L uploaded (show_image w) = (Inl e, w1) \<longrightarrow>
        fst (main L (Some uploaded) W w) = Inr ()
        \<and> ui (snd (main L (Some uploaded) W w))
            = ui (show_image w) @ [StError (''Error loading STL file: '' @ str_error e)])
   \<and> (load_stl_body L uploaded (show_image w) = (Inr mesh_obj, w1)
        \<and> voxelize_body L mesh_obj (w_resolution W) = Inl e \<longrightarrow>
        fst (main L (Some uploaded) W w) = Inr ()
        \<and> ui (snd (main L (Some uploaded) W w))
            = ui (show_image w) @ [StError (''Error voxelizing mesh: '' @ str_error e)])"
proof -
  have a: "load_stl_file L uploaded w0
             = (None, st_emit (StError (''Error loading STL file: '' @ str_error e)) w1)
           \<and> ui (snd (load_stl_file L uploaded w0))
               = ui w0 @ [StError (''Error loading STL file: '' @ str_error e)]"
    if "load_stl_body L uploaded w0 = (Inl e, w1)" for w0 :: "'a world"
  proof -
    have "ui w1 = ui w0"
      using load_stl_body_ui [of L uploaded w0] that by simp
    with that show ?thesis
      by (simp add: load_stl_file_def st_emit_def)
  qed
  have b: "voxelize_mesh L mesh_obj r w0
             = (None, st_emit (StError (''Error voxelizing mesh: '' @ str_error e)) w0)
           \<and> ui (snd (voxelize_mesh L mesh_obj r w0))
               = ui w0 @ [StError (''Error voxelizing mesh: '' @ str_error e)]"
    if "voxelize_body L mesh_obj r = Inl e" for r and w0 :: "'a world"
    using that by (simp add: voxelize_mesh_def st_emit_def)
  have c: "fst (main L (Some uploaded) W w) = Inr ()
           \<and> ui (snd (main L (Some uploaded) W w))
               = ui (show_image w) @ [StError (''Error loading STL file: '' @ str_error e)]"
    if l: "load_stl_body L uploaded (show_image w) = (Inl e, w1)"
  proof -
    from a [OF l] have r: "load_stl_file L uploaded (show_image w)
        = (None, st_emit (StError (''Error loading STL file: '' @ str_error e)) w1)"
      and u: "ui (snd (load_stl_file L uploaded (show_image w)))
        = ui (show_image w) @ [StError (''Error loading STL file: '' @ str_error e)]"
      by blast+
    have m: "main L (Some uploaded) W w
               = (Inr (), snd (load_stl_file L uploaded (show_image w)))"
      by (simp add: main_def r)
    show ?thesis unfolding m using u by simp
  qed
  have d: "fst (main L (Some uploaded) W w) = Inr ()
           \<and> ui (snd (main L (Some uploaded) W w))
               = ui (show_image w) @ [StError (''Error voxelizing mesh: '' @ str_error e)]"
    if l: "load_stl_body L uploaded (show_image w) = (Inr mesh_obj, w1)"
      and v: "voxelize_body L mesh_obj (w_resolution W) = Inl e"
  proof -
    have u: "ui w1 = ui (show_image w)"
      using load_stl_body_ui [of L uploaded "show_image w"] l by simp
    have "load_stl_file L uploaded (show_image w) = (Some mesh_obj, w1)"
      using l by (simp add: load_stl_file_def)
    moreover from b [OF v, of w1]
    have r: "voxelize_mesh L mesh_obj (w_resolution W) w1
        = (None, st_emit (StError (''Error voxelizing mesh: '' @ str_error e)) w1)"
      and s: "ui (snd (voxelize_mesh L mesh_obj (w_resolution W) w1))
        = ui w1 @ [StError (''Error voxelizing mesh: '' @ str_error e)]"
      by blast+
    ultimately have m: "main L (Some uploaded) W w
               = (Inr (), snd (voxelize_mesh L mesh_obj (w_resolution W) w1))"
      by (simp add: main_def)
    show ?thesis unfolding m using s u by simp
  qed
  from a b c d show ?thesis by blast
qed

theorem failures_are_caught_witness:
  "load_stl_file example_libs bad_upload example_world
     = (None, st_emit (StError (''Error loading STL file: could not convert string to float: 'a''
                                  @ [CHR 0x27]))
               (example_world\<lparr>files := [''/tmp/tmp0.stl'' \<mapsto> words_stl]\<rparr>))
   \<and> voxelize_mesh example_libs flat_mesh 50 example_world
       = (None, st_emit (StError ''Error voxelizing mesh: pitch must be positive'') example_world)
   \<and> main example_libs (Some bad_upload) example_widgets example_world
       = (Inr (),
          \<lparr>files = [''/tmp/tmp0.stl'' \<mapsto> words_stl],
           ui = [StWarning ''Image 'image.png' not found in the current directory'',
                 StError (''Error loading STL file: could not convert string to float: 'a''
                            @ [CHR 0x27])],
           rng = 7\<rparr>)
   \<and> main example_libs (Some flat_upload) example_widgets example_world
       = (Inr (),
          \<lparr>files = Map.empty,
           ui = [StWarning ''Image 'image.png' not found in the current directory'',
                 StError ''Error voxelizing mesh: pitch must be positive''],
           rng = 7\<rparr>)"
proof -
  let ?e1 = "ValueError (''could not convert string to float: 'a'' @ [CHR 0x27])"
  let ?e2 = "Exception ''pitch must be positive''"
  let ?w1 = "example_world\<lparr>files := [''/tmp/tmp0.stl'' \<mapsto> words_stl]\<rparr>"
  let ?wi = "show_image example_world"
  have img: "?wi = \<lparr>files = Map.empty,
                    ui = [StWarning ''Image 'image.png' not found in the current directory''],
                    rng = 7\<rparr>"
    by (simp add: show_image_def example_world_def st_emit_def)
  have l1: "load_stl_body example_libs bad_upload example_world = (Inl ?e1, ?w1)"
    by (simp add: load_stl_body_def example_libs_def example_load_mesh_def bad_upload_def
          example_world_def stl_texts_differ)
  have l2: "load_stl_body example_libs bad_upload ?wi
              = (Inl ?e1, ?wi\<lparr>files := [''/tmp/tmp0.stl'' \<mapsto> words_stl]\<rparr>)"
    by (simp add: load_stl_body_def example_libs_def example_load_mesh_def bad_upload_def
          img stl_texts_differ)
  have l3: "load_stl_body example_libs flat_upload ?wi = (Inr flat_mesh, ?wi)"
    by (simp add: load_stl_body_def example_libs_def example_load_mesh_def flat_upload_def
          img stl_texts_differ)
  have v: "voxelize_body example_libs flat_mesh 50 = Inl ?e2"
    by (simp add: voxelize_body_def flat_mesh_def mesh_pitch_def max_dimension_flat
          float64_divide_zero example_libs_def del: max_dimension.simps)
  have r: "w_resolution example_widgets = 50"
    by (simp add: example_widgets_def)
  note t1 = failures_are_caught [of example_libs bad_upload example_world ?e1 ?w1
              flat_mesh 50 example_widgets]
  note t2 = failures_are_caught [of example_libs bad_upload example_world ?e1
              "?wi\<lparr>files := [''/tmp/tmp0.stl'' \<mapsto> words_stl]\<rparr>" flat_mesh 50 example_widgets]
  note t3 = failures_are_caught [of example_libs flat_upload example_world ?e2 ?wi
              flat_mesh 50 example_widgets]
  have a: "load_stl_file example_libs bad_upload example_world
     = (None, st_emit (StError (''Error loading STL file: could not convert string to float: 'a''
                                  @ [CHR 0x27])) ?w1)"
    using t1 l1 by simp
  have b: "voxelize_mesh example_libs flat_mesh 50 example_world
       = (None, st_emit (StError ''Error voxelizing mesh: pitch must be positive'') example_world)"
    using t3 v by simp
  have c1: "fst (main example_libs (Some bad_upload) example_widgets example_world) = Inr ()
      \<and> ui (snd (main example_libs (Some bad_upload) example_widgets example_world))
       = [StWarning ''Image 'image.png' not found in the current directory'',
          StError (''Error loading STL file: could not convert string to float: 'a''
                     @ [CHR 0x27])]"
    using t2 l2 by (simp add: img)
  have d1: "fst (main example_libs (Some flat_upload) example_widgets example_world) = Inr ()
      \<and> ui (snd (main example_libs (Some flat_upload) example_widgets example_world))
       = [StWarning ''Image 'image.png' not found in the current directory'',
          StError ''Error voxelizing mesh: pitch must be positive'']"
    using t3 l3 v r by (simp add: img)
  have c2: "files (snd (main example_libs (Some bad_upload) example_widgets example_world))
              = [''/tmp/tmp0.stl'' \<mapsto> words_stl]
          \<and> rng (snd (main example_libs (Some bad_upload) example_widgets example_world)) = 7"
    using l2 by (simp add: main_def load_stl_file_def st_emit_def img)
  have d2: "files (snd (main example_libs (Some flat_upload) example_widgets example_world))
              = Map.empty
          \<and> rng (snd (main example_libs (Some flat_upload) example_widgets example_world)) = 7"
    using l3 v r by (simp add: main_def load_stl_file_def voxelize_mesh_def st_emit_def img)
  have c: "main example_libs (Some bad_upload) example_widgets example_world
       = (Inr (),
          \<lparr>files = [''/tmp/tmp0.stl'' \<mapsto> words_stl],
           ui = [StWarning ''Image 'image.png' not found in the current directory'',
                 StError (''Error loading STL file: could not convert string to float: 'a''
                            @ [CHR 0x27])],
           rng = 7\<rparr>)"
    using c1 c2 by (cases "main example_libs (Some bad_upload) example_widgets example_world") auto
  have d: "main example_libs (Some flat_upload) example_widgets example_world
       = (Inr (),
          \<lparr>files = Map.empty,
           ui = [StWarning ''Image 'image.png' not found in the current directory'',
                 StError ''Error voxelizing mesh: pitch must be positive''],
           rng = 7\<rparr>)"
    using d1 d2 by (cases "main example_libs (Some flat_upload) example_widgets example_world") auto
  from a b c d show ?thesis by blast
qed

subsection \<open>The empty result\<close>




subsection \<open>The renderers and the grid\<close>



text \<open>
  The slice is a view, so the condition on \<^verbatim>\<open>px.imshow\<close> is needed: with a routine that
  inverts the array it is handed, the call changes the matrix of the grid.
\<close>

lemma writing_imshow_changes_grid:
  "matrix (snd (create_slice_visualization scribbling_libs example_grid ''z'' (Some 1) ''Viridis''))
     = \<lparr>shape = (1, 2, 2), cells = [True, True, False, False]\<rparr>"
  by (simp add: create_slice_visualization_leaves example_grid_def example_select_z1
        scribbling_libs_def example_libs_def put_axis_def)
    (simp add: example_matrix_def cell3_def cell2_def
       upt_rec [of _ "Suc _"] upt_rec [of _ "numeral _"])

subsection \<open>Coordinates\<close>

text \<open>
  Claim C10: the coordinates of the 3D figure and the rows of the exported table are
  both the rows of \<^verbatim>\<open>argwhere\<close> on the matrix, in the same order: the index triples of the
  True cells, strictly ascending in the lexicographic order; they do not depend on the
  pitch or the origin of the grid.
\<close>

theorem coordinates_are_grid_indices:
  "(\<forall>fig. fst (create_voxel_visualization L grid colormap color_by marker_size opacity w)
             = Inr (Some fig) \<longrightarrow>
           zip (fig_x fig) (zip (fig_y fig) (fig_z fig)) = np_argwhere (matrix grid))
   \<and> csv_table (coordinates_csv grid)
       = [''X'', ''Y'', ''Z''] #
         map (\<lambda>(i, j, k). [str_nat i, str_nat j, str_nat k]) (np_argwhere (matrix grid))
   \<and> sorted_wrt (<) (np_argwhere (matrix grid))
   \<and> set (np_argwhere (matrix grid))
       = {p \<in> set (ndindex (shape (matrix grid))). cell3 (matrix grid) p}
   \<and> np_argwhere (matrix (grid\<lparr>stored_pitch := sp, lib_pitch := lp, origin := og\<rparr>))
       = np_argwhere (matrix grid)"
proof -
  have f: "zip (fig_x fig) (zip (fig_y fig) (fig_z fig)) = np_argwhere (matrix grid)"
    if "fst (create_voxel_visualization L grid colormap color_by marker_size opacity w)
          = Inr (Some fig)"
    for fig
    using that
    by (auto simp: create_voxel_visualization_def Let_def zip_columns
          split: if_splits option.splits)
  have s: "set (np_argwhere (matrix grid))
       = {p \<in> set (ndindex (shape (matrix grid))). cell3 (matrix grid) p}"
    by (simp add: np_argwhere_def)
  from f s show ?thesis
    by (simp add: csv_table_coordinates_csv sorted_np_argwhere)
qed

theorem coordinates_are_grid_indices_witness:
  "(\<exists>fig. fst (create_voxel_visualization example_libs example_grid ''Viridis'' ''Z-coordinate''
             4 (4 / 5) example_world) = Inr (Some fig)
          \<and> zip (fig_x fig) (zip (fig_y fig) (fig_z fig)) = [(0, 0, 0), (0, 1, 1)])
   \<and> csv_table (coordinates_csv example_grid)
       = [[''X'', ''Y'', ''Z''], [''0'', ''0'', ''0''], [''0'', ''1'', ''1'']]"
proof -
  have m: "matrix example_grid = example_matrix"
    by (simp add: example_grid_def)
  have e: "\<exists>fig. fst (create_voxel_visualization example_libs example_grid ''Viridis''
             ''Z-coordinate'' 4 (4 / 5) example_world) = Inr (Some fig)"
    by (simp add: create_voxel_visualization_def Let_def m np_argwhere_example
          example_scatter3d_accepts)
  from coordinates_are_grid_indices
         [of example_libs example_grid "''Viridis''" "''Z-coordinate''" 4 "4 / 5" example_world]
       e
  show ?thesis
    by (auto simp: m np_argwhere_example str_nat_digits)
qed

subsection \<open>Runs of \<^verbatim>\<open>main\<close>\<close>

text \<open>
  When the renderers leave the grid as it is, \<^verbatim>\<open>main\<close> hands the table computed from the
  grid the voxelizer returned to the download button.
\<close>

lemma show_grid_csv_button:
  assumes "show_grid L uploaded W mesh_obj grid w = (Inr (), w')" and "w_download_csv W"
    and "wf_ndarray3 (matrix grid)"
    and "argwhere_leaves L (matrix grid) = matrix grid"
    and "\<forall>s. imshow_leaves L s = s"
  shows "last (ui w') = DownloadButton ''Download Voxel Coordinates''
                          (CsvText (coordinates_csv grid))
                          (strip_suffix4 (name uploaded) @ ''_coordinates.csv'') ''text/csv''"
proof -
  obtain r1 w1 where d: "display_mesh_info mesh_obj grid w = (r1, w1)"
    by (cases "display_mesh_info mesh_obj grid w")
  obtain fig_3d grid1 w2 where
    v: "create_voxel_visualization L grid (w_selected_colormap W) (w_color_by W)
          (w_marker_size W) (w_opacity W) w1 = (fig_3d, grid1, w2)"
    by (cases "create_voxel_visualization L grid (w_selected_colormap W) (w_color_by W)
          (w_marker_size W) (w_opacity W) w1")
  have g1: "grid1 = grid"
    using create_voxel_visualization_leaves
            [of L grid "w_selected_colormap W" "w_color_by W" "w_marker_size W" "w_opacity W" w1]
          v assms(4)
    by simp
  obtain r2 grid2 where
    s: "create_slice_visualization L grid (w_slice_axis W) (Some (w_slice_index W))
          (w_slice_colormap W) = (r2, grid2)"
    by (cases "create_slice_visualization L grid (w_slice_axis W) (Some (w_slice_index W))
          (w_slice_colormap W)")
  have g2: "grid2 = grid"
    using create_slice_visualization_unchanged
            [OF assms(3,5), of "w_slice_axis W" "Some (w_slice_index W)" "w_slice_colormap W"] s
    by simp
  show ?thesis
    using assms(1,2) d v s unfolding g1 g2
    by (auto simp: show_grid_def Let_def st_emit_def split: sum.splits)
qed

text \<open>
  With the accepted upload, on the small instance, \<^verbatim>\<open>main\<close> ends normally after seventeen
  outputs, the last being the download button with the table of the two occupied cells.
\<close>

lemma main_example_run:
  "fst (main example_libs (Some good_upload) example_widgets example_world) = Inr ()
   \<and> last (ui (snd (main example_libs (Some good_upload) example_widgets example_world)))
       = DownloadButton ''Download Voxel Coordinates''
           (CsvText (''X,Y,Z'' @ [newline] @ ''0,0,0'' @ [newline] @ ''0,1,1'' @ [newline]))
           ''part_coordinates.csv'' ''text/csv''
   \<and> length (ui (snd (main example_libs (Some good_upload) example_widgets example_world))) = 17"
proof -
  let ?p = "Fin (3602879701896397 / 18014398509481984)"
  let ?g = "example_grid\<lparr>stored_pitch := Some ?p\<rparr>"
  let ?wi = "show_image example_world"
  have m: "matrix ?g = example_matrix"
    by (simp add: example_grid_def)
  have img: "length (ui ?wi) = 1"
    by (simp add: show_image_def example_world_def st_emit_def)
  have l: "load_stl_file example_libs good_upload ?wi = (Some example_mesh, ?wi)"
    by (simp add: load_stl_file_def load_stl_body_def example_libs_def example_load_mesh_def
          good_upload_def example_world_def show_image_def st_emit_def)
  obtain w1 where d: "display_mesh_info example_mesh ?g ?wi = (Inr (), w1)"
    and n1: "length (ui w1) = length (ui ?wi) + 13"
    using example_panel_lines [of ?p ?wi] by blast
  obtain fig where v: "create_voxel_visualization example_libs ?g ''Viridis'' ''Z-coordinate''
                         4 (4 / 5) w1 = (Inr (Some fig), ?g, w1)"
    by (simp add: create_voxel_visualization_def Let_def m np_argwhere_example
          example_scatter3d_accepts)
      (simp add: example_libs_def example_grid_def color_values_of_def)
  have wf: "wf_ndarray3 (matrix ?g)"
    by (simp add: example_grid_def example_matrix_def wf_ndarray3_def)
  have il: "\<forall>s. imshow_leaves example_libs s = s"
    by (simp add: example_libs_def)
  have "\<exists>fig2. fst (create_slice_visualization example_libs ?g ''z'' (Some 1) ''Viridis'')
                  = Inr fig2"
    by (simp add: create_slice_visualization_def Let_def m example_select_z1
          example_imshow_accepts)
  then obtain fig2 where
    s1: "fst (create_slice_visualization example_libs ?g ''z'' (Some 1) ''Viridis'') = Inr fig2" ..
  have s: "create_slice_visualization example_libs ?g ''z'' (Some 1) ''Viridis'' = (Inr fig2, ?g)"
    using s1 create_slice_visualization_unchanged [OF wf il, of "''z''" "Some 1" "''Viridis''"]
    by (cases "create_slice_visualization example_libs ?g ''z'' (Some 1) ''Viridis''") simp
  have run: "main example_libs (Some good_upload) example_widgets example_world
      = (Inr (),
         st_emit (DownloadButton ''Download Voxel Coordinates''
                    (CsvText (coordinates_csv ?g))
                    (strip_suffix4 (name good_upload) @ ''_coordinates.csv'') ''text/csv'')
           (st_emit (PlotlyChartSlice fig2) (st_emit (PlotlyChart3d fig) w1)))"
    by (simp add: main_def l example_voxelize_50 example_widgets_def show_grid_def d v s)
  show ?thesis
    unfolding run
    by (simp add: st_emit_def n1 img example_grid_csv good_upload_def strip_suffix4_def)
qed

text \<open>
  With the colour scheme \<open>Cool\<close> chosen for the 3D chart, the same run ends with plotly's
  exception.
\<close>

lemma main_rejected_colour_scheme:
  "fst (main example_libs (Some good_upload) (example_widgets\<lparr>w_selected_colormap := ''Cool''\<rparr>)
          example_world)
     = Inl (ValueError ''Invalid value for the colorscale property'')"
proof -
  let ?p = "Fin (3602879701896397 / 18014398509481984)"
  let ?g = "example_grid\<lparr>stored_pitch := Some ?p\<rparr>"
  let ?wi = "show_image example_world"
  have m: "matrix ?g = example_matrix"
    by (simp add: example_grid_def)
  have l: "load_stl_file example_libs good_upload ?wi = (Some example_mesh, ?wi)"
    by (simp add: load_stl_file_def load_stl_body_def example_libs_def example_load_mesh_def
          good_upload_def example_world_def show_image_def st_emit_def)
  obtain w1 where d: "display_mesh_info example_mesh ?g ?wi = (Inr (), w1)"
    using example_panel_lines [of ?p ?wi] by blast
  have v: "fst (create_voxel_visualization example_libs ?g ''Cool'' ''Z-coordinate'' 4 (4 / 5) w1)
             = Inl (ValueError ''Invalid value for the colorscale property'')"
    by (simp add: create_voxel_visualization_def Let_def m np_argwhere_example
          example_libs_def example_scatter3d_error_def example_colorscales_def)
  then obtain g2 w2 where
    v2: "create_voxel_visualization example_libs ?g ''Cool'' ''Z-coordinate'' 4 (4 / 5) w1
           = (Inl (ValueError ''Invalid value for the colorscale property''), g2, w2)"
    by (cases "create_voxel_visualization example_libs ?g ''Cool'' ''Z-coordinate'' 4 (4 / 5) w1")
      auto
  show ?thesis
    by (simp add: main_def l example_voxelize_50 example_widgets_def show_grid_def d v2)
qed

end
